theory Spec2Isabelle
  imports Complex_Main "HOL-Library.AList"
begin

section \<open>JavaScript values\<close>

text \<open>
  The values that travel through \<^verbatim>\<open>src/utils/mcp.ts\<close> are the values \<^verbatim>\<open>JSON.parse\<close>
  returns. \<^verbatim>\<open>undefined\<close> (an absent property, a missing argument) is \<open>None\<close> of
  \<open>json option\<close>. An object is the list of its own properties, in the order in which
  \<^verbatim>\<open>Object.entries\<close> gives them; \<^verbatim>\<open>JSON.parse\<close> gives every key once, and makes
  \<^verbatim>\<open>__proto__\<close> an own property like any other. A string is a list of bytes, so a
  character beyond ASCII counts as several where JavaScript counts UTF-16 units; nothing
  below depends on the count.
\<close>

datatype json =
    JNull
  | JBool bool
  | JNum rat
  | JStr string
  | JArr "json list"
  | JObj "(string \<times> json) list"

text \<open>
  What the code throws: \<^verbatim>\<open>new Error(v)\<close>, kept with the argument it was built from
  (its message is the string form of \<open>v\<close>), and the \<^verbatim>\<open>TypeError\<close> of the runtime
  (a property read on \<^verbatim>\<open>null\<close> or \<^verbatim>\<open>undefined\<close>, a call of something that is no
  function, an iteration over something not iterable).
\<close>

datatype js_error = Error "json option" | TypeError

text \<open>
  Built-ins of the platform that the code calls and that are not part of the repository
  are parameters of the model: \<^verbatim>\<open>JSON.parse\<close> (\<open>None\<close> when it throws
  \<^verbatim>\<open>SyntaxError\<close>), \<^verbatim>\<open>JSON.stringify\<close> and the string form of a number.
\<close>

record platform =
  json_parse :: "string \<Rightarrow> json option"
  json_stringify :: "json \<Rightarrow> string"
  number_toString :: "rat \<Rightarrow> string"

text \<open>Truthiness, as \<^verbatim>\<open>if (x)\<close>, \<^verbatim>\<open>!x\<close> and \<^verbatim>\<open>x || y\<close> test it.\<close>

fun truthy :: "json \<Rightarrow> bool" where
  "truthy JNull = False"
| "truthy (JBool b) = b"
| "truthy (JNum r) = (r \<noteq> 0)"
| "truthy (JStr s) = (s \<noteq> [])"
| "truthy (JArr xs) = True"
| "truthy (JObj kvs) = True"

fun truthy_opt :: "json option \<Rightarrow> bool" where
  "truthy_opt None = False"
| "truthy_opt (Some v) = truthy v"

text \<open>
  \<open>property v k\<close> is \<^verbatim>\<open>v.k\<close> for a value \<open>v\<close> that is not \<^verbatim>\<open>null\<close>, for the property
  names the code reads (\<^verbatim>\<open>type\<close>, \<^verbatim>\<open>content\<close>, \<^verbatim>\<open>tools\<close>, ...): none of them
  exists on a number, a boolean, a string or an array, and none is inherited from
  \<^verbatim>\<open>Object.prototype\<close>, so an object gives its own property. On \<^verbatim>\<open>null\<close> and \<^verbatim>\<open>undefined\<close>
  the read throws \<^verbatim>\<open>TypeError\<close>; every function below that reads a property of a
  value that may be \<^verbatim>\<open>null\<close> has that case written out.
\<close>

fun property :: "json \<Rightarrow> string \<Rightarrow> json option" where
  "property (JObj kvs) k = map_of kvs k"
| "property v k = None"

text \<open>\<^verbatim>\<open>Array.prototype.join\<close> on strings.\<close>

fun join :: "string \<Rightarrow> string list \<Rightarrow> string" where
  "join sep [] = []"
| "join sep [x] = x"
| "join sep (x # y # ys) = x @ sep @ join sep (y # ys)"

text \<open>
  The conversion of a value to a string (\<^verbatim>\<open>ToString\<close>), which \<^verbatim>\<open>new Error(v)\<close>, a
  template literal and \<^verbatim>\<open>join\<close> apply. An object is converted by its \<^verbatim>\<open>toString\<close>:
  that of \<^verbatim>\<open>Object.prototype\<close> gives \<^verbatim>\<open>[object Object]\<close>, but an own property
  \<^verbatim>\<open>toString\<close> of a parsed object is no function, and then the conversion throws
  \<^verbatim>\<open>TypeError\<close> (\<^verbatim>\<open>valueOf\<close> gives no primitive either). An array is converted by
  joining the conversions of its elements with commas, \<^verbatim>\<open>null\<close> giving the empty
  string. \<open>has_string_form\<close> says that the conversion does not throw, \<open>string_form\<close>
  is its result then.
\<close>

fun has_string_form :: "json \<Rightarrow> bool" where
  "has_string_form (JArr xs) = list_all has_string_form xs"
| "has_string_form (JObj kvs) = (map_of kvs ''toString'' = None)"
| "has_string_form v = True"

fun string_form :: "platform \<Rightarrow> json \<Rightarrow> string" where
  "string_form P JNull = ''null''"
| "string_form P (JBool b) = (if b then ''true'' else ''false'')"
| "string_form P (JNum r) = number_toString P r"
| "string_form P (JStr s) = s"
| "string_form P (JArr xs) =
     join '','' (map (\<lambda>x. if x = JNull then [] else string_form P x) xs)"
| "string_form P (JObj kvs) = ''[object Object]''"

definition js_toString :: "platform \<Rightarrow> json \<Rightarrow> js_error + string" where
  "js_toString P v = (if has_string_form v then Inr (string_form P v) else Inl TypeError)"

text \<open>An element of \<^verbatim>\<open>join\<close>: \<^verbatim>\<open>undefined\<close> and \<^verbatim>\<open>null\<close> give the empty string.\<close>

fun join_element :: "platform \<Rightarrow> json option \<Rightarrow> js_error + string" where
  "join_element P None = Inr []"
| "join_element P (Some JNull) = Inr []"
| "join_element P (Some v) = js_toString P v"

text \<open>A value inside a template literal: \<^verbatim>\<open>`${v}`\<close>.\<close>

fun template :: "platform \<Rightarrow> json option \<Rightarrow> js_error + string" where
  "template P None = Inr ''undefined''"
| "template P (Some v) = js_toString P v"

text \<open>Results in a row: the first error ends the row, as the first exception would.\<close>

fun in_turn :: "(js_error + 'a) list \<Rightarrow> js_error + 'a list" where
  "in_turn [] = Inr []"
| "in_turn (r # rs) =
     (case r of
        Inl e \<Rightarrow> Inl e
      | Inr x \<Rightarrow> (case in_turn rs of Inl e \<Rightarrow> Inl e | Inr xs \<Rightarrow> Inr (x # xs)))"

text \<open>The decimal form of an array index, and \<^verbatim>\<open>Object.entries\<close>.\<close>

fun show_nat :: "nat \<Rightarrow> string" where
  "show_nat n =
     (if n < 10 then [char_of (48 + n)]
      else show_nat (n div 10) @ [char_of (48 + n mod 10)])"

fun entries :: "json \<Rightarrow> (string \<times> json) list" where
  "entries (JObj kvs) = kvs"
| "entries (JArr xs) = zip (map show_nat [0..<length xs]) xs"
| "entries (JStr s) = zip (map show_nat [0..<length s]) (map (\<lambda>c. JStr [c]) s)"
| "entries v = []"

section \<open>The schema translator\<close>

text \<open>
  The validators of the zod library that \<^verbatim>\<open>convertSchemaToZod\<close> and
  \<^verbatim>\<open>convertPropertyToZod\<close> build: \<^verbatim>\<open>z.any()\<close>, \<^verbatim>\<open>z.string()\<close>, \<^verbatim>\<open>z.number()\<close>,
  \<^verbatim>\<open>z.number().int()\<close>, \<^verbatim>\<open>z.number().int().min(m)\<close>, \<^verbatim>\<open>z.boolean()\<close>, \<^verbatim>\<open>z.array(e)\<close>,
  \<^verbatim>\<open>z.object(shape)\<close> and \<^verbatim>\<open>s.optional()\<close>.
\<close>

datatype zod =
    ZAny
  | ZString
  | ZNumber
  | ZInt
  | ZIntMin json
  | ZBoolean
  | ZArray zod
  | ZObject "(string \<times> zod) list"
  | ZOptional zod

text \<open>
  \<^verbatim>\<open>schema.required?.includes(key)\<close>: the optional chain stops at \<^verbatim>\<open>undefined\<close> and
  \<^verbatim>\<open>null\<close>; an array is searched for the key, a string for the key as a substring; any
  other value has no callable \<^verbatim>\<open>includes\<close>.
\<close>

fun includes_string :: "string \<Rightarrow> string \<Rightarrow> bool" where
  "includes_string [] key = (key = [])"
| "includes_string (c # cs) key =
     (take (length key) (c # cs) = key \<or> includes_string cs key)"

fun required_includes :: "json option \<Rightarrow> string \<Rightarrow> js_error + bool" where
  "required_includes None key = Inr False"
| "required_includes (Some JNull) key = Inr False"
| "required_includes (Some (JArr xs)) key = Inr (JStr key \<in> set xs)"
| "required_includes (Some (JStr s)) key = Inr (includes_string s key)"
| "required_includes (Some v) key = Inl TypeError"

fun entries_bound :: "(string \<times> json) list \<Rightarrow> nat" where
  "entries_bound [] = 0"
| "entries_bound ((k, v) # es) = max (size v) (entries_bound es)"

lemma size_map_of:
  "map_of kvs k = Some w \<Longrightarrow> size w < Suc (size_list (size_prod (\<lambda>x. 0) size) kvs)"
  by (induction kvs) (auto split: if_splits)

lemma size_in_set: "w \<in> set xs \<Longrightarrow> size w < Suc (size_list size xs)"
  by (induction xs) auto

lemma size_in_snd:
  "(k, w) \<in> set kvs \<Longrightarrow> size w < Suc (size_list (size_prod (\<lambda>x. 0) size) kvs)"
  by (induction kvs) auto

lemma size_property: "property v k = Some w \<Longrightarrow> size w < size v"
  by (cases v) (auto dest: size_map_of)

lemma size_entries: "(k, w) \<in> set (entries v) \<Longrightarrow> size w \<le> size v"
  by (cases v) (auto dest!: set_zip_rightD dest: size_in_set size_in_snd)

lemma entries_bound_le:
  "\<forall>e \<in> set es. size (snd e) \<le> n \<Longrightarrow> entries_bound es \<le> n"
  by (induction es) auto

text \<open>
  \<^verbatim>\<open>convertSchemaToZod\<close> (lines 392-440) and \<^verbatim>\<open>convertPropertyToZod\<close> (lines 442-468).
  \<open>convertProperties\<close> is the \<^verbatim>\<open>for\<close> loop of lines 405-424 over
  \<^verbatim>\<open>Object.entries(schema.properties)\<close>: each property is translated, then looked up in
  \<^verbatim>\<open>schema.required\<close>, and is made optional when it is not found there. The shape is
  an object literal, so the assignment \<^verbatim>\<open>shape[key] = ...\<close> for the key \<^verbatim>\<open>__proto__\<close>
  sets the prototype of the shape and adds no key to it; \<^verbatim>\<open>z.object\<close> takes the own
  keys of the shape.
\<close>

function convertSchemaToZod :: "json option \<Rightarrow> js_error + zod"
  and convertPropertyToZod :: "json \<Rightarrow> js_error + zod"
  and convertProperties ::
    "json option \<Rightarrow> (string \<times> json) list \<Rightarrow> js_error + (string \<times> zod) list"
where
  "convertSchemaToZod None = Inr (ZObject [])"
| "convertSchemaToZod (Some schema) =
     (if \<not> truthy schema \<or> \<not> truthy_opt (property schema ''type'') then Inr (ZObject [])
      else if property schema ''type'' = Some (JStr ''object'') then
        (case property schema ''properties'' of
           None \<Rightarrow> Inr (ZObject [])
         | Some props \<Rightarrow>
             if truthy props then
               (case convertProperties (property schema ''required'') (entries props) of
                  Inl e \<Rightarrow> Inl e
                | Inr shape \<Rightarrow> Inr (ZObject shape))
             else Inr (ZObject []))
      else Inr ZAny)"
| "convertPropertyToZod schema =
     (if schema = JNull then Inl TypeError
      else case property schema ''type'' of
        Some (JStr t) \<Rightarrow>
          if t = ''string'' then Inr ZString
          else if t = ''number'' then Inr ZNumber
          else if t = ''integer'' then
            (case property schema ''minimum'' of
               None \<Rightarrow> Inr ZInt
             | Some m \<Rightarrow> Inr (ZIntMin m))
          else if t = ''boolean'' then Inr ZBoolean
          else if t = ''array'' then
            (case property schema ''items'' of
               None \<Rightarrow> Inr (ZArray ZAny)
             | Some items \<Rightarrow>
                 if truthy items then
                   (case convertPropertyToZod items of
                      Inl e \<Rightarrow> Inl e
                    | Inr z \<Rightarrow> Inr (ZArray z))
                 else Inr (ZArray ZAny))
          else if t = ''object'' then convertSchemaToZod (Some schema)
          else Inr ZAny
      | _ \<Rightarrow> Inr ZAny)"
| "convertProperties required [] = Inr []"
| "convertProperties required ((key, propSchema) # rest) =
     (case convertPropertyToZod propSchema of
        Inl e \<Rightarrow> Inl e
      | Inr z \<Rightarrow>
          (case required_includes required key of
             Inl e \<Rightarrow> Inl e
           | Inr inc \<Rightarrow>
               (case convertProperties required rest of
                  Inl e \<Rightarrow> Inl e
                | Inr shape \<Rightarrow>
                    Inr (if key = ''__proto__'' then shape
                         else (key, if inc then z else ZOptional z) # shape))))"
  by pat_completeness auto
termination
proof (relation "inv_image (less_than <*lex*> less_than <*lex*> less_than)
     (\<lambda>x. case x of
        Inl None \<Rightarrow> (0, 0, 0)
      | Inl (Some s) \<Rightarrow> (size s, 1, 0)
      | Inr (Inl s) \<Rightarrow> (size s, 2, 0)
      | Inr (Inr (r, es)) \<Rightarrow> (entries_bound es, 3, length es))", goal_cases)
  case 1
  show ?case by (intro wf_inv_image wf_lex_prod wf_less_than)
next
  case (2 schema props)
  have "entries_bound (entries props) \<le> size props"
    by (rule entries_bound_le) (auto dest: size_entries)
  moreover have "size props < size schema"
    using 2 by (auto dest: size_property)
  ultimately show ?case by simp
next
  case (3 schema t name items)
  then show ?case by (auto dest: size_property)
next
  case 4
  then show ?case by simp
next
  case 5
  then show ?case by (auto simp: max_def)
next
  case 6
  then show ?case by (auto simp: max_def)
qed

text \<open>
  What a validator accepts, after the zod library. An object validator takes an object
  (not an array, not \<^verbatim>\<open>null\<close>), checks each key of its shape against \<^verbatim>\<open>data[key]\<close> and
  ignores the other properties; an optional validator also takes \<^verbatim>\<open>undefined\<close>;
  \<^verbatim>\<open>z.any()\<close> takes everything. \<^verbatim>\<open>data[key]\<close> goes through the prototype chain: where
  the object has no own property of that name, a name of \<^verbatim>\<open>Object.prototype\<close> gives the
  inherited member, which is a function, or for \<^verbatim>\<open>__proto__\<close> the prototype itself, and
  only another name gives \<^verbatim>\<open>undefined\<close>. A function is taken by \<^verbatim>\<open>z.any()\<close> alone; the
  prototype is an object whose members are looked up in the same way
  (\<^verbatim>\<open>Object.prototype.__proto__\<close> is \<^verbatim>\<open>null\<close>).
\<close>

definition object_prototype_methods :: "string list" where
  "object_prototype_methods =
     [''constructor'', ''__defineGetter__'', ''__defineSetter__'', ''hasOwnProperty'',
      ''__lookupGetter__'', ''__lookupSetter__'', ''isPrototypeOf'', ''propertyIsEnumerable'',
      ''toString'', ''valueOf'', ''toLocaleString'']"

definition object_prototype_keys :: "string list" where
  "object_prototype_keys = ''__proto__'' # object_prototype_methods"

datatype member = Absent | Own json | Method | Prototype

definition inherited :: "string \<Rightarrow> member" where
  "inherited k =
     (if k = ''__proto__'' then Prototype
      else if k \<in> set object_prototype_methods then Method
      else Absent)"

definition lookup_member :: "(string \<times> json) list \<Rightarrow> string \<Rightarrow> member" where
  "lookup_member kvs k = (case map_of kvs k of Some v \<Rightarrow> Own v | None \<Rightarrow> inherited k)"

definition prototype_member :: "string \<Rightarrow> member" where
  "prototype_member k =
     (if k = ''__proto__'' then Own JNull
      else if k \<in> set object_prototype_methods then Method
      else Absent)"

text \<open>
  The bound of \<^verbatim>\<open>min\<close> is a number in zod's signature (the source casts it with
  \<^verbatim>\<open>as number\<close>), and zod compares with JavaScript's \<^verbatim>\<open><\<close>. A bound that is
  \<^verbatim>\<open>null\<close> or a boolean is compared as the number it converts to; the conversion of a
  string, an array or an object to a number is not followed here, and such a bound
  rejects nothing in this model.
\<close>

definition is_integer :: "rat \<Rightarrow> bool" where
  "is_integer r = (of_int \<lfloor>r\<rfloor> = r)"

fun min_bound :: "json \<Rightarrow> rat option" where
  "min_bound (JNum lo) = Some lo"
| "min_bound JNull = Some 0"
| "min_bound (JBool b) = Some (if b then 1 else 0)"
| "min_bound v = None"

fun validates :: "zod \<Rightarrow> member \<Rightarrow> bool" where
  "validates ZAny m = True"
| "validates ZString m = (case m of Own (JStr s) \<Rightarrow> True | _ \<Rightarrow> False)"
| "validates ZNumber m = (case m of Own (JNum r) \<Rightarrow> True | _ \<Rightarrow> False)"
| "validates ZInt m = (case m of Own (JNum r) \<Rightarrow> is_integer r | _ \<Rightarrow> False)"
| "validates (ZIntMin b) m =
     (case m of
        Own (JNum r) \<Rightarrow>
          is_integer r \<and> (case min_bound b of None \<Rightarrow> True | Some lo \<Rightarrow> lo \<le> r)
      | _ \<Rightarrow> False)"
| "validates ZBoolean m = (case m of Own (JBool b) \<Rightarrow> True | _ \<Rightarrow> False)"
| "validates (ZArray z) m =
     (case m of
        Own (JArr xs) \<Rightarrow> list_all (\<lambda>x. validates z (Own x)) xs
      | _ \<Rightarrow> False)"
| "validates (ZObject shape) m =
     (case m of
        Own (JObj kvs) \<Rightarrow> list_all (\<lambda>(k, z). validates z (lookup_member kvs k)) shape
      | Prototype \<Rightarrow> list_all (\<lambda>(k, z). validates z (prototype_member k)) shape
      | _ \<Rightarrow> False)"
| "validates (ZOptional z) m = (m = Absent \<or> validates z m)"

text \<open>The validator applied to a value, \<open>None\<close> being \<^verbatim>\<open>undefined\<close>.\<close>

definition accepts :: "zod \<Rightarrow> json option \<Rightarrow> bool" where
  "accepts z v = validates z (case v of None \<Rightarrow> Absent | Some x \<Rightarrow> Own x)"

section \<open>One session: the request correlator\<close>

text \<open>
  A server object of the source (\<^verbatim>\<open>interface MCPServer\<close>) lives in a store and is
  named by its address; the closures of the source (the line listener, the exit and
  error listeners, a tool's handler) keep the object they were made with, also after the
  registry has dropped it. The child process is the lines written to its standard input
  and whether \<^verbatim>\<open>kill()\<close> was called; a write to a process that has ended is recorded
  like any other, and what the platform makes of it is outside the model. A ticket names
  a promise the manager has handed to its caller.
\<close>

type_synonym addr = nat

type_synonym ticket = nat

text \<open>
  A pending request holds the \<^verbatim>\<open>resolve\<close> and \<^verbatim>\<open>reject\<close> of a promise. What matters of
  them is who awaits the promise: \<^verbatim>\<open>startServer\<close> at line 89, \<^verbatim>\<open>listTools\<close> at line 207
  (itself awaited by \<^verbatim>\<open>startServer\<close> at line 99), or a tool's handler at line 324.
\<close>

datatype cont = AwaitInitialize ticket | AwaitListTools ticket | AwaitToolCall ticket

datatype outcome = Resolved "json option" | Rejected js_error

record MCPServer =
  killed :: bool
  stdin :: "string list"
  tools :: json
  capabilities :: json
  nextId :: int
  pendingRequests :: "int \<rightharpoonup> cont"
  command :: string

definition new_server :: "string \<Rightarrow> MCPServer" where
  "new_server c =
     \<lparr>killed = False, stdin = [], tools = JArr [], capabilities = JObj [],
      nextId = 1, pendingRequests = Map.empty, command = c\<rparr>"

text \<open>
  \<^verbatim>\<open>server.nextId++\<close> on a JavaScript number: exact up to \<open>2^53\<close>, where adding one
  no longer changes the value.
\<close>

definition js_inc :: "int \<Rightarrow> int" where
  "js_inc n = (if n < 2 ^ 53 then n + 1 else n)"

definition newline :: string where
  "newline = [CHR 0x0A]"

text \<open>
  The request object of lines 181-186; \<^verbatim>\<open>JSON.stringify\<close> leaves out a property whose
  value is \<^verbatim>\<open>undefined\<close>.
\<close>

definition request_json :: "int \<Rightarrow> string \<Rightarrow> json option \<Rightarrow> json" where
  "request_json i method params =
     JObj ([(''jsonrpc'', JStr ''2.0''), (''id'', JNum (of_int i)), (''method'', JStr method)]
           @ (case params of None \<Rightarrow> [] | Some p \<Rightarrow> [(''params'', p)]))"

text \<open>
  \<^verbatim>\<open>sendRequest\<close> (lines 175-203): takes the next id, stores the continuation under it
  and writes the request line. The promise it returns is the one the continuation waits
  for.
\<close>

definition sendRequest ::
  "platform \<Rightarrow> MCPServer \<Rightarrow> string \<Rightarrow> json option \<Rightarrow> cont \<Rightarrow> MCPServer" where
  "sendRequest P s method params k =
     s\<lparr>nextId := js_inc (nextId s),
       pendingRequests := (pendingRequests s)(nextId s \<mapsto> k),
       stdin := stdin s @ [json_stringify P (request_json (nextId s) method params) @ newline]\<rparr>"

text \<open>
  The keys of \<^verbatim>\<open>pendingRequests\<close> are the numbers \<^verbatim>\<open>sendRequest\<close> stored, so
  \<^verbatim>\<open>pendingRequests.get(message.id)\<close> can find something only for an id that is an
  integer.
\<close>

fun pending_key :: "json \<Rightarrow> int option" where
  "pending_key (JNum r) = (if is_integer r then Some \<lfloor>r\<rfloor> else None)"
| "pending_key v = None"

definition pending_get :: "(int \<rightharpoonup> cont) \<Rightarrow> json \<Rightarrow> (int \<times> cont) option" where
  "pending_get p idv =
     (case pending_key idv of
        None \<Rightarrow> None
      | Some k \<Rightarrow> (case p k of None \<Rightarrow> None | Some c \<Rightarrow> Some (k, c)))"

text \<open>
  Lines 136-158: a truthy \<^verbatim>\<open>message.error\<close> rejects with
  \<^verbatim>\<open>new Error(message.error.message)\<close>, anything else resolves with \<^verbatim>\<open>message.result\<close>.
  \<^verbatim>\<open>new Error(v)\<close> converts \<open>v\<close> to a string unless it is \<^verbatim>\<open>undefined\<close>, and throws
  \<^verbatim>\<open>TypeError\<close> where \<open>v\<close> has no string form; that happens before \<^verbatim>\<open>reject\<close> is
  called.
\<close>

definition response_outcome :: "(string \<times> json) list \<Rightarrow> js_error + outcome" where
  "response_outcome kvs =
     (case map_of kvs ''error'' of
        None \<Rightarrow> Inr (Resolved (map_of kvs ''result''))
      | Some e \<Rightarrow>
          if truthy e then
            (case property e ''message'' of
               None \<Rightarrow> Inr (Rejected (Error None))
             | Some m \<Rightarrow>
                 if has_string_form m then Inr (Rejected (Error (Some m)))
                 else Inl TypeError)
          else Inr (Resolved (map_of kvs ''result'')))"

text \<open>
  \<open>message_has_string_form e\<close>: the \<^verbatim>\<open>message\<close> of the error object \<open>e\<close> is absent or
  can be converted to a string, so that line 146 does not throw.
\<close>

definition message_has_string_form :: "json \<Rightarrow> bool" where
  "message_has_string_form e =
     (case property e ''message'' of None \<Rightarrow> True | Some m \<Rightarrow> has_string_form m)"

type_synonym task = "int \<times> cont \<times> outcome"

text \<open>
  \<^verbatim>\<open>handleMessage\<close> (lines 117-173). \<^verbatim>\<open>"id" in message\<close> throws on a value that is no
  object; an array has no \<^verbatim>\<open>id\<close> and no \<^verbatim>\<open>method\<close>. A message without \<^verbatim>\<open>id\<close> is at most
  a notification, which is only written to the debug log. The entry of a pending request
  is deleted (line 159) after its promise has been settled, so an exception of line 146
  leaves it in place. The result is the server after the message and the promise that
  was settled, if one was.
\<close>

fun handleMessage :: "MCPServer \<Rightarrow> json \<Rightarrow> js_error + MCPServer \<times> task option" where
  "handleMessage s (JObj kvs) =
     (case map_of kvs ''id'' of
        None \<Rightarrow> Inr (s, None)
      | Some idv \<Rightarrow>
          (case pending_get (pendingRequests s) idv of
             None \<Rightarrow> Inr (s, None)
           | Some (k, c) \<Rightarrow>
               (case response_outcome kvs of
                  Inl e \<Rightarrow> Inl e
                | Inr out \<Rightarrow>
                    Inr (s\<lparr>pendingRequests := (pendingRequests s)(k := None)\<rparr>,
                         Some (k, c, out)))))"
| "handleMessage s (JArr xs) = Inr (s, None)"
| "handleMessage s v = Inl TypeError"















section \<open>The manager\<close>

text \<open>
  \<^verbatim>\<open>class MCPManager\<close>: the registry \<^verbatim>\<open>servers\<close> is a JavaScript \<^verbatim>\<open>Map\<close>, which keeps
  its keys in the order of their insertion, here a list of command and address. The
  store holds every server object ever made. \<open>settled\<close> records the promises the
  manager has settled for its callers, in the order of their settling, and \<open>error_log\<close>
  the messages of \<^verbatim>\<open>logger.error\<close>. What the code writes with \<^verbatim>\<open>logger.info\<close>,
  \<^verbatim>\<open>logger.debug\<close> and \<^verbatim>\<open>console.log\<close> changes nothing it reads later and is not
  recorded.
\<close>

datatype settlement = Fulfilled "string option" | Threw js_error

record MCPManager =
  servers :: "(string \<times> addr) list"
  heap :: "MCPServer list"
  settled :: "(ticket \<times> settlement) list"
  error_log :: "string list"

definition new_manager :: MCPManager where
  "new_manager = \<lparr>servers = [], heap = [], settled = [], error_log = []\<rparr>"

definition settle :: "ticket \<Rightarrow> settlement \<Rightarrow> MCPManager \<Rightarrow> MCPManager" where
  "settle t r st = st\<lparr>settled := settled st @ [(t, r)]\<rparr>"

definition log_error :: "string \<Rightarrow> MCPManager \<Rightarrow> MCPManager" where
  "log_error msg st = st\<lparr>error_log := error_log st @ [msg]\<rparr>"

definition getActiveServers :: "MCPManager \<Rightarrow> string list" where
  "getActiveServers st = map fst (servers st)"

subsection \<open>Listing tools\<close>

text \<open>
  The body of the \<^verbatim>\<open>try\<close> in \<^verbatim>\<open>listTools\<close> (lines 207-244) once the request has
  resolved with \<open>result\<close>: \<^verbatim>\<open>result.tools\<close> throws on \<^verbatim>\<open>null\<close> and \<^verbatim>\<open>undefined\<close>;
  otherwise \<^verbatim>\<open>server.tools = result.tools || []\<close> is done, and the logging that follows
  throws when the stored value has no \<^verbatim>\<open>map\<close> or holds a \<^verbatim>\<open>null\<close>. The boolean says
  whether the \<^verbatim>\<open>catch\<close> of line 245 was entered.
\<close>

fun logging_throws :: "json \<Rightarrow> bool" where
  "logging_throws (JArr xs) = (JNull \<in> set xs)"
| "logging_throws v = True"

fun listTools_resolved :: "MCPServer \<Rightarrow> json option \<Rightarrow> MCPServer \<times> bool" where
  "listTools_resolved s None = (s, True)"
| "listTools_resolved s (Some JNull) = (s, True)"
| "listTools_resolved s (Some result) =
     (let t = (case property result ''tools'' of
                 None \<Rightarrow> JArr []
               | Some v \<Rightarrow> if truthy v then v else JArr [])
      in (s\<lparr>tools := t\<rparr>, logging_throws t))"

subsection \<open>The result of a tool call\<close>

text \<open>
  Lines 342-361, run when \<^verbatim>\<open>tools/call\<close> has resolved with \<open>result\<close>. \<open>text_blocks\<close> is
  the \<^verbatim>\<open>filter\<close> of line 344, whose callback reads \<^verbatim>\<open>c.type\<close> and so throws on a
  \<^verbatim>\<open>null\<close> element. The \<^verbatim>\<open>join\<close> of line 346 converts each text to a string, in their
  order, and throws at the first that has no string form.
\<close>

fun text_blocks :: "json list \<Rightarrow> js_error + json list" where
  "text_blocks [] = Inr []"
| "text_blocks (c # cs) =
     (if c = JNull then Inl TypeError
      else case text_blocks cs of
        Inl e \<Rightarrow> Inl e
      | Inr bs \<Rightarrow> Inr (if property c ''type'' = Some (JStr ''text'') then c # bs else bs))"

fun tool_result :: "platform \<Rightarrow> json option \<Rightarrow> js_error + string" where
  "tool_result P None = Inl TypeError"
| "tool_result P (Some JNull) = Inl TypeError"
| "tool_result P (Some result) =
     (case property result ''content'' of
        Some (JArr blocks) \<Rightarrow>
          (case text_blocks blocks of
             Inl e \<Rightarrow> Inl e
           | Inr bs \<Rightarrow>
               (case in_turn (map (\<lambda>c. join_element P (property c ''text'')) bs) of
                  Inl e \<Rightarrow> Inl e
                | Inr ts \<Rightarrow> Inr (join newline ts)))
      | _ \<Rightarrow> Inr (json_stringify P result))"

subsection \<open>Continuations\<close>

text \<open>
  \<^verbatim>\<open>listTools\<close> up to its \<^verbatim>\<open>await\<close> (line 207): the request \<^verbatim>\<open>tools/list\<close>, without
  parameters, awaited for the \<^verbatim>\<open>startServer\<close> call of ticket \<open>t\<close>.
\<close>

definition listTools :: "platform \<Rightarrow> ticket \<Rightarrow> MCPServer \<Rightarrow> MCPServer" where
  "listTools P t s = sendRequest P s ''tools/list'' None (AwaitListTools t)"

text \<open>
  What runs when a pending request of the server at \<open>a\<close> has been settled. After
  \<^verbatim>\<open>initialize\<close> has resolved, \<^verbatim>\<open>startServer\<close> goes on to \<^verbatim>\<open>listTools\<close>; a rejection
  leaves \<^verbatim>\<open>startServer\<close> by its exception. \<^verbatim>\<open>listTools\<close> catches everything (line 245)
  and returns; \<^verbatim>\<open>startServer\<close>, which awaits it at line 99, returns one turn of the
  job queue later (\<open>returns_after\<close>). The handler of a tool returns the text or rethrows
  what it caught (lines 362-381).
\<close>

definition update_server :: "addr \<Rightarrow> MCPServer \<Rightarrow> MCPManager \<Rightarrow> MCPManager" where
  "update_server a s st = st\<lparr>heap := (heap st)[a := s]\<rparr>"

fun run_task :: "platform \<Rightarrow> addr \<Rightarrow> MCPManager \<Rightarrow> task \<Rightarrow> MCPManager" where
  "run_task P a st (i, AwaitInitialize t, Resolved r) =
     update_server a (listTools P t (heap st ! a)) st"
| "run_task P a st (i, AwaitInitialize t, Rejected e) = settle t (Threw e) st"
| "run_task P a st (i, AwaitListTools t, Resolved r) =
     (case listTools_resolved (heap st ! a) r of
        (s', threw) \<Rightarrow>
          (if threw then log_error ''Failed to list MCP tools'' else id)
            (update_server a s' st))"
| "run_task P a st (i, AwaitListTools t, Rejected e) =
     log_error ''Failed to list MCP tools'' st"
| "run_task P a st (i, AwaitToolCall t, Resolved r) =
     (case tool_result P r of
        Inr text \<Rightarrow> settle t (Fulfilled (Some text)) st
      | Inl e \<Rightarrow> settle t (Threw e) (log_error ''MCP tool call failed'' st))"
| "run_task P a st (i, AwaitToolCall t, Rejected e) =
     settle t (Threw e) (log_error ''MCP tool call failed'' st)"

fun returns_after :: "task \<Rightarrow> ticket list" where
  "returns_after (i, AwaitListTools t, out) = [t]"
| "returns_after (i, c, out) = []"

definition return_startServer :: "MCPManager \<Rightarrow> ticket \<Rightarrow> MCPManager" where
  "return_startServer st t = settle t (Fulfilled None) st"

subsection \<open>Inbound lines\<close>

text \<open>
  The line listener of lines 63-70. \<^verbatim>\<open>readline\<close> emits the lines of one chunk of output
  one after the other before any continuation runs, so a continuation is queued when
  its promise is settled and run after the last line of the chunk, in the order of the
  settling; the \<^verbatim>\<open>startServer\<close> calls that waited for \<^verbatim>\<open>listTools\<close> return after
  that.
\<close>

definition on_line ::
  "platform \<Rightarrow> addr \<Rightarrow> MCPManager \<times> task list \<Rightarrow> string \<Rightarrow> MCPManager \<times> task list" where
  "on_line P a stq line =
     (case stq of
        (st, q) \<Rightarrow>
          (case json_parse P line of
             None \<Rightarrow> (log_error ''Failed to parse MCP message'' st, q)
           | Some message \<Rightarrow>
               (case handleMessage (heap st ! a) message of
                  Inl e \<Rightarrow> (log_error ''Failed to parse MCP message'' st, q)
                | Inr (s', t) \<Rightarrow>
                    (update_server a s' st, q @ (case t of None \<Rightarrow> [] | Some x \<Rightarrow> [x])))))"

definition on_lines :: "platform \<Rightarrow> addr \<Rightarrow> MCPManager \<Rightarrow> string list \<Rightarrow> MCPManager" where
  "on_lines P a st ls =
     (case foldl (on_line P a) (st, []) ls of
        (st', q) \<Rightarrow>
          foldl return_startServer (foldl (run_task P a) st' q) (concat (map returns_after q)))"

subsection \<open>Starting and stopping\<close>

text \<open>
  \<^verbatim>\<open>spawn\<close> belongs to the platform: it throws at once (an empty program name), or gives
  a child process, whose \<^verbatim>\<open>stdout\<close> the code checks (line 44). A program that cannot be
  run is reported later, by the \<^verbatim>\<open>error\<close> event.
\<close>

datatype spawn_result = SpawnThrows js_error | Spawned bool

definition initialize_params :: json where
  "initialize_params =
     JObj [(''protocolVersion'', JStr ''2024-11-05''),
           (''capabilities'', JObj []),
           (''clientInfo'', JObj [(''name'', JStr ''aicode''), (''version'', JStr ''1.0.0'')])]"

text \<open>
  \<^verbatim>\<open>startServer\<close> (lines 31-100) up to its first \<^verbatim>\<open>await\<close>: the server object is put
  into the registry at line 86, before \<^verbatim>\<open>initialize\<close> is sent at line 89. \<^verbatim>\<open>Map.set\<close>
  adds a new key at the end, as \<open>AList.update\<close> does.
\<close>

definition startServer ::
  "platform \<Rightarrow> ticket \<Rightarrow> string \<Rightarrow> spawn_result \<Rightarrow> MCPManager \<Rightarrow> MCPManager" where
  "startServer P t c sp st =
     (if map_of (servers st) c \<noteq> None then settle t (Fulfilled None) st
      else case sp of
        SpawnThrows e \<Rightarrow> settle t (Threw e) st
      | Spawned False \<Rightarrow>
          settle t (Threw (Error (Some (JStr ''Server process stdout is null'')))) st
      | Spawned True \<Rightarrow>
          st\<lparr>servers := AList.update c (length (heap st)) (servers st),
             heap := heap st @
               [sendRequest P (new_server c) ''initialize'' (Some initialize_params)
                  (AwaitInitialize t)]\<rparr>)"

text \<open>\<^verbatim>\<open>stopServer\<close> (lines 102-109) and \<^verbatim>\<open>stopAllServers\<close> (lines 111-115).\<close>

definition stop_one :: "string \<Rightarrow> MCPManager \<Rightarrow> MCPManager" where
  "stop_one c st =
     (case map_of (servers st) c of
        None \<Rightarrow> st
      | Some a \<Rightarrow>
          st\<lparr>heap := (heap st)[a := (heap st ! a)\<lparr>killed := True\<rparr>],
             servers := AList.delete c (servers st)\<rparr>)"

definition stopServer :: "ticket \<Rightarrow> string \<Rightarrow> MCPManager \<Rightarrow> MCPManager" where
  "stopServer t c st = settle t (Fulfilled None) (stop_one c st)"

definition stopAllServers :: "ticket \<Rightarrow> MCPManager \<Rightarrow> MCPManager" where
  "stopAllServers t st =
     settle t (Fulfilled None) (foldl (\<lambda>st' c. stop_one c st') st (map fst (servers st)))"

text \<open>
  The \<^verbatim>\<open>exit\<close> and \<^verbatim>\<open>error\<close> listeners of a process (lines 76-84) delete the entry of
  the command their server was started with.
\<close>

definition process_exit :: "addr \<Rightarrow> MCPManager \<Rightarrow> MCPManager" where
  "process_exit a st = st\<lparr>servers := AList.delete (command (heap st ! a)) (servers st)\<rparr>"

definition process_error :: "addr \<Rightarrow> MCPManager \<Rightarrow> MCPManager" where
  "process_error a st = process_exit a (log_error ''MCP server process error'' st)"

subsection \<open>The tool catalog\<close>

text \<open>
  A descriptor of \<^verbatim>\<open>getAllTools\<close> (lines 284-383). Its \<^verbatim>\<open>handler\<close> is a closure over
  the server object and the tool; it is kept as the address of the server and the
  \<^verbatim>\<open>name\<close> of the tool, which is all the handler uses of them.
\<close>

record tool_descriptor =
  name :: string
  description :: "json option"
  parameters :: zod
  handler :: "addr \<times> json option"

text \<open>
  \<^verbatim>\<open>for (const tool of server.tools)\<close>: an array or a string can be iterated. For each
  tool the schema is translated first (line 269); the template literal of line 285 then
  throws \<^verbatim>\<open>TypeError\<close> for a \<^verbatim>\<open>name\<close> without string form.
\<close>

fun iterate :: "json \<Rightarrow> js_error + json list" where
  "iterate (JArr xs) = Inr xs"
| "iterate (JStr s) = Inr (map (\<lambda>c. JStr [c]) s)"
| "iterate v = Inl TypeError"

definition convert_tool :: "platform \<Rightarrow> addr \<Rightarrow> json \<Rightarrow> js_error + tool_descriptor" where
  "convert_tool P a tool =
     (if tool = JNull then Inl TypeError
      else case convertSchemaToZod (property tool ''inputSchema'') of
        Inl e \<Rightarrow> Inl e
      | Inr z \<Rightarrow>
          (case template P (property tool ''name'') of
             Inl e \<Rightarrow> Inl e
           | Inr n \<Rightarrow>
               Inr \<lparr>name = ''mcp_'' @ n,
                    description = property tool ''description'',
                    parameters = z,
                    handler = (a, property tool ''name'')\<rparr>))"

fun convert_tools :: "platform \<Rightarrow> addr \<Rightarrow> json list \<Rightarrow> js_error + tool_descriptor list" where
  "convert_tools P a [] = Inr []"
| "convert_tools P a (tool # rest) =
     (case convert_tool P a tool of
        Inl e \<Rightarrow> Inl e
      | Inr d \<Rightarrow>
          (case convert_tools P a rest of
             Inl e \<Rightarrow> Inl e
           | Inr ds \<Rightarrow> Inr (d # ds)))"

fun catalog :: "platform \<Rightarrow> MCPServer list \<Rightarrow> (string \<times> addr) list \<Rightarrow> js_error + tool_descriptor list" where
  "catalog P h [] = Inr []"
| "catalog P h ((c, a) # rest) =
     (case iterate (tools (h ! a)) of
        Inl e \<Rightarrow> Inl e
      | Inr ts \<Rightarrow>
          (case convert_tools P a ts of
             Inl e \<Rightarrow> Inl e
           | Inr ds \<Rightarrow>
               (case catalog P h rest of
                  Inl e \<Rightarrow> Inl e
                | Inr ds' \<Rightarrow> Inr (ds @ ds'))))"

definition getAllTools :: "platform \<Rightarrow> MCPManager \<Rightarrow> js_error + tool_descriptor list" where
  "getAllTools P st = catalog P (heap st) (servers st)"

text \<open>
  A call of a descriptor's handler, up to its \<^verbatim>\<open>await\<close> (lines 288-327). Before the
  request is sent the handler prints the name of the tool and the parameters (lines
  304-321): the template literal of line 304 converts \<^verbatim>\<open>tool.name\<close>,
  \<^verbatim>\<open>Object.entries(params)\<close> throws on \<^verbatim>\<open>null\<close> and \<^verbatim>\<open>undefined\<close>, and of each value
  among the parameters the elements (of an array) or the values of the properties (of an
  object) are converted to strings; a value of another kind always has a string form.
  \<open>handler_prints\<close> gives the parameters when nothing of this throws. The handler
  catches what is thrown, logs it and throws again (lines 362-381); otherwise
  \<^verbatim>\<open>tools/call\<close> is sent to the handler's server.
\<close>

fun printable :: "json \<Rightarrow> bool" where
  "printable (JArr items) = list_all has_string_form items"
| "printable (JObj kvs) = list_all (\<lambda>kv. has_string_form (snd kv)) kvs"
| "printable v = True"

fun handler_prints :: "json option \<Rightarrow> json option \<Rightarrow> js_error + json" where
  "handler_prints tool_name None = Inl TypeError"
| "handler_prints tool_name (Some JNull) = Inl TypeError"
| "handler_prints tool_name (Some params) =
     (if (case tool_name of None \<Rightarrow> True | Some n \<Rightarrow> has_string_form n)
         \<and> list_all (\<lambda>kv. printable (snd kv)) (entries params)
      then Inr params else Inl TypeError)"

definition call_params :: "json option \<Rightarrow> json \<Rightarrow> json" where
  "call_params tool_name params =
     JObj ((case tool_name of None \<Rightarrow> [] | Some n \<Rightarrow> [(''name'', n)]) @ [(''arguments'', params)])"

fun call_handler ::
  "platform \<Rightarrow> ticket \<Rightarrow> addr \<times> json option \<Rightarrow> json option \<Rightarrow> MCPManager \<Rightarrow> MCPManager" where
  "call_handler P t (a, tool_name) params st =
     (case handler_prints tool_name params of
        Inl e \<Rightarrow> settle t (Threw e) (log_error ''MCP tool call failed'' st)
      | Inr p \<Rightarrow>
          update_server a
            (sendRequest P (heap st ! a) ''tools/call'' (Some (call_params tool_name p))
               (AwaitToolCall t)) st)"

subsection \<open>Events\<close>

text \<open>
  One step of the manager is one turn of the event loop: a call from the host up to the
  point where it waits, a chunk of lines from a process, or the end of a process. An
  event of a process carries the address of the server object its listeners were made
  for; an address that names no server object never occurs and changes nothing.
\<close>

datatype event =
    StartServer ticket string spawn_result
  | StopServer ticket string
  | StopAllServers ticket
  | CallHandler ticket "addr \<times> json option" "json option"
  | Lines addr "string list"
  | ProcessExit addr
  | ProcessError addr

fun known :: "MCPManager \<Rightarrow> addr \<Rightarrow> bool" where
  "known st a = (a < length (heap st))"

fun step :: "platform \<Rightarrow> MCPManager \<Rightarrow> event \<Rightarrow> MCPManager" where
  "step P st (StartServer t c sp) = startServer P t c sp st"
| "step P st (StopServer t c) = stopServer t c st"
| "step P st (StopAllServers t) = stopAllServers t st"
| "step P st (CallHandler t h params) =
     (if known st (fst h) then call_handler P t h params st else st)"
| "step P st (Lines a ls) = (if known st a then on_lines P a st ls else st)"
| "step P st (ProcessExit a) = (if known st a then process_exit a st else st)"
| "step P st (ProcessError a) = (if known st a then process_error a st else st)"

definition run :: "platform \<Rightarrow> MCPManager \<Rightarrow> event list \<Rightarrow> MCPManager" where
  "run P st evs = foldl (step P) st evs"

subsection \<open>The registry\<close>

text \<open>
  What every state of the manager satisfies: a command has at most one entry, two
  entries never name the same server object, and every entry names a server object.
  \<open>entries_of c st\<close> are the entries the command \<open>c\<close> has in the registry.
\<close>

definition wf_manager :: "MCPManager \<Rightarrow> bool" where
  "wf_manager st =
     (distinct (map fst (servers st)) \<and> distinct (map snd (servers st))
      \<and> (\<forall>e \<in> set (servers st). snd e < length (heap st)))"

definition entries_of :: "string \<Rightarrow> MCPManager \<Rightarrow> (string \<times> addr) list" where
  "entries_of c st = filter (\<lambda>e. fst e = c) (servers st)"

text \<open>\<open>same_state\<close>: two states of the manager that differ at most in the error log.\<close>

definition same_state :: "MCPManager \<Rightarrow> MCPManager \<Rightarrow> bool" where
  "same_state st st' =
     (servers st = servers st' \<and> heap st = heap st' \<and> settled st = settled st')"

text \<open>
  The specification's words for the text of a result: the \<^verbatim>\<open>text\<close> of every block whose
  \<^verbatim>\<open>type\<close> is \<^verbatim>\<open>"text"\<close>, in their order. A text that is a string is itself; an absent or
  \<^verbatim>\<open>null\<close> text counts as the empty string and another value as its string form.
  \<open>texts_have_string_form\<close> says that the text of every such block has one.
\<close>

fun text_of :: "platform \<Rightarrow> json option \<Rightarrow> string" where
  "text_of P None = []"
| "text_of P (Some JNull) = []"
| "text_of P (Some (JStr s)) = s"
| "text_of P (Some v) = string_form P v"

definition is_text_block :: "json \<Rightarrow> bool" where
  "is_text_block c = (property c ''type'' = Some (JStr ''text''))"

definition texts_of_text_blocks :: "platform \<Rightarrow> json list \<Rightarrow> string list" where
  "texts_of_text_blocks P blocks =
     map (\<lambda>c. text_of P (property c ''text'')) (filter is_text_block blocks)"

definition texts_have_string_form :: "json list \<Rightarrow> bool" where
  "texts_have_string_form blocks =
     list_all (\<lambda>c. case property c ''text'' of None \<Rightarrow> True | Some v \<Rightarrow> has_string_form v)
       (filter is_text_block blocks)"

section \<open>An example platform\<close>

text \<open>
  For the examples below: a serialiser for the values that occur in them (strings
  without characters to escape, integers), and a \<^verbatim>\<open>JSON.parse\<close> that knows the
  serialised form of a given list of messages and rejects every other line.
\<close>

definition quote :: "string \<Rightarrow> string" where
  "quote s = [CHR 0x22] @ s @ [CHR 0x22]"

definition example_number :: "rat \<Rightarrow> string" where
  "example_number r =
     (if is_integer r then (if r < 0 then ''-'' else []) @ show_nat (nat \<bar>\<lfloor>r\<rfloor>\<bar>) else [])"

fun example_stringify :: "json \<Rightarrow> string" where
  "example_stringify JNull = ''null''"
| "example_stringify (JBool b) = (if b then ''true'' else ''false'')"
| "example_stringify (JNum r) = example_number r"
| "example_stringify (JStr s) = quote s"
| "example_stringify (JArr xs) = ''['' @ join '','' (map example_stringify xs) @ '']''"
| "example_stringify (JObj kvs) =
     ''{'' @ join '','' (map (\<lambda>kv. quote (fst kv) @ '':'' @ example_stringify (snd kv)) kvs)
     @ ''}''"

definition example_platform :: "json list \<Rightarrow> platform" where
  "example_platform msgs =
     \<lparr>json_parse = map_of (map (\<lambda>m. (example_stringify m, m)) msgs),
      json_stringify = example_stringify,
      number_toString = example_number\<rparr>"

definition response :: "int \<Rightarrow> json \<Rightarrow> json" where
  "response i r =
     JObj [(''jsonrpc'', JStr ''2.0''), (''id'', JNum (of_int i)), (''result'', r)]"

definition error_response :: "int \<Rightarrow> string \<Rightarrow> json" where
  "error_response i msg =
     JObj [(''jsonrpc'', JStr ''2.0''), (''id'', JNum (of_int i)),
           (''error'', JObj [(''message'', JStr msg)])]"

definition string_property_schema :: json where
  "string_property_schema =
     JObj [(''type'', JStr ''object''),
           (''properties'', JObj [(''a'', JObj [(''type'', JStr ''string'')])])]"


definition failing_initialize :: platform where
  "failing_initialize = example_platform [error_response 1 ''boom'']"

definition boom_line :: string where
  "boom_line = example_stringify (error_response 1 ''boom'')"

definition unconvertible_error :: json where
  "unconvertible_error =
     JObj [(''jsonrpc'', JStr ''2.0''), (''id'', JNum 1),
           (''error'', JObj [(''message'', JObj [(''toString'', JNum 0)])])]"

definition failing_tools_list :: platform where
  "failing_tools_list = example_platform [response 1 (JObj []), error_response 2 ''no tools'']"

definition search_tool :: json where
  "search_tool =
     JObj [(''name'', JStr ''search''), (''description'', JStr ''Searches''),
           (''inputSchema'',
            JObj [(''type'', JStr ''object''),
                  (''properties'', JObj [(''query'', JObj [(''type'', JStr ''string'')])]),
                  (''required'', JArr [JStr ''query''])])]"

definition search_platform :: platform where
  "search_platform =
     example_platform [response 1 (JObj []), response 2 (JObj [(''tools'', JArr [search_tool])])]"

definition two_sessions :: MCPManager where
  "two_sessions =
     run search_platform new_manager
       [StartServer 0 ''alpha'' (Spawned True),
        Lines 0 [example_stringify (response 1 (JObj []))],
        Lines 0 [example_stringify (response 2 (JObj [(''tools'', JArr [search_tool])]))],
        StartServer 1 ''beta'' (Spawned True),
        Lines 1 [example_stringify (response 1 (JObj []))],
        Lines 1 [example_stringify (response 2 (JObj [(''tools'', JArr [search_tool])]))]]"

definition echo_tool :: json where
  "echo_tool =
     JObj [(''name'', JStr ''echo''), (''description'', JStr ''Echoes input''),
           (''inputSchema'',
            JObj [(''type'', JStr ''object''),
                  (''properties'', JObj [(''text'', JObj [(''type'', JStr ''string'')])]),
                  (''required'', JArr [JStr ''text''])])]"

definition echo_platform :: "json \<Rightarrow> platform" where
  "echo_platform result =
     example_platform
       [response 1 (JObj []), response 2 (JObj [(''tools'', JArr [echo_tool])]),
        response 3 result]"

definition echo_call :: "json \<Rightarrow> MCPManager" where
  "echo_call result =
     run (echo_platform result) new_manager
       [StartServer 0 ''tool-echo'' (Spawned True),
        Lines 0 [example_stringify (response 1 (JObj []))],
        Lines 0 [example_stringify (response 2 (JObj [(''tools'', JArr [echo_tool])]))],
        CallHandler 1 (0, Some (JStr ''echo'')) (Some (JObj [(''text'', JStr ''hi'')])),
        Lines 0 [example_stringify (response 3 result)]]"

definition text_block :: "string \<Rightarrow> json" where
  "text_block s = JObj [(''type'', JStr ''text''), (''text'', JStr s)]"

definition image_block :: json where
  "image_block = JObj [(''type'', JStr ''image''), (''data'', JStr ''AAAA'')]"

section \<open>The schema translator: properties\<close>

lemma accepts_empty_object: "accepts (ZObject []) v = (\<exists>kvs. v = Some (JObj kvs))"
  by (cases v) (auto simp: accepts_def split: json.splits)

text \<open>
  Claim C9, as the code has it. A schema that is missing, or whose \<^verbatim>\<open>type\<close> is missing
  (or falsy), is translated to \<^verbatim>\<open>z.object({})\<close>. That validator accepts every object,
  whatever its properties, and rejects every value that is not an object.
\<close>

theorem untyped_schema_gives_empty_object:
  assumes "schema = None \<or> (\<exists>s. schema = Some s \<and> \<not> truthy_opt (property s ''type''))"
  shows "convertSchemaToZod schema = Inr (ZObject [])
         \<and> (\<forall>v. accepts (ZObject []) v = (\<exists>kvs. v = Some (JObj kvs)))"
proof -
  have "convertSchemaToZod schema = Inr (ZObject [])"
    using assms by auto
  moreover have "\<forall>v. accepts (ZObject []) v = (\<exists>kvs. v = Some (JObj kvs))"
    by (rule allI) (rule accepts_empty_object)
  ultimately show ?thesis by (rule conjI)
qed

theorem untyped_schema_gives_empty_object_witness:
  "convertSchemaToZod (Some (JObj [(''description'', JStr ''free form'')])) = Inr (ZObject [])
   \<and> accepts (ZObject []) (Some (JObj [(''a'', JNum 1)]))
   \<and> \<not> accepts (ZObject []) (Some (JNum 1))"
proof -
  have h: "Some (JObj [(''description'', JStr ''free form'')]) = None
           \<or> (\<exists>s. Some (JObj [(''description'', JStr ''free form'')]) = Some s
                   \<and> \<not> truthy_opt (property s ''type''))"
    by simp
  show ?thesis
    using untyped_schema_gives_empty_object [OF h] by (simp add: accepts_def)
qed

text \<open>
  Claim C9 as the specification states it (an accept-anything validator) fails: the
  schema \<^verbatim>\<open>{}\<close> has no \<^verbatim>\<open>type\<close>, and the validator made for it rejects the string
  \<^verbatim>\<open>"hello"\<close>.
\<close>

theorem untyped_schema_rejects_string:
  "convertSchemaToZod (Some (JObj [])) = Inr (ZObject [])
   \<and> \<not> accepts (ZObject []) (Some (JStr ''hello''))"
  by (simp add: accepts_def)

lemma convertProperties_not_required:
  "convertProperties None es = Inr shape \<Longrightarrow>
   map fst shape = filter (\<lambda>k. k \<noteq> ''__proto__'') (map fst es)
   \<and> (\<forall>e \<in> set shape. \<exists>z. snd e = ZOptional z)"
proof (induction es arbitrary: shape)
  case Nil
  then show ?case by simp
next
  case (Cons e es)
  obtain k v where e: "e = (k, v)" by (cases e)
  from Cons.prems e obtain z rest where
    r: "convertPropertyToZod v = Inr z" "convertProperties None es = Inr rest"
       "shape = (if k = ''__proto__'' then rest else (k, ZOptional z) # rest)"
    by (auto simp del: convertPropertyToZod.simps split: sum.splits)
  from Cons.IH[OF r(2)] r(3) e show ?case by auto
qed

lemma accepts_all_optional:
  assumes "\<forall>e \<in> set shape. \<exists>z. snd e = ZOptional z"
    and "\<forall>e \<in> set shape. fst e \<notin> set object_prototype_keys"
  shows "accepts (ZObject shape) (Some (JObj []))"
proof -
  have "validates (snd e) (lookup_member [] (fst e))" if "e \<in> set shape" for e
  proof -
    from that assms(2) have "lookup_member [] (fst e) = Absent"
      by (auto simp: lookup_member_def inherited_def object_prototype_keys_def)
    moreover from that assms(1) obtain z where "snd e = ZOptional z"
      by auto
    ultimately show ?thesis by simp
  qed
  then show ?thesis
    by (auto simp: accepts_def list_all_iff)
qed

text \<open>
  Claim C3, as the code has it. For a schema of type \<^verbatim>\<open>object\<close> with a non-empty
  \<^verbatim>\<open>properties\<close> map and no \<^verbatim>\<open>required\<close> list, every declared property is made
  optional: the validator, when the translation yields one, has the declared keys in
  their order, except \<^verbatim>\<open>__proto__\<close>, each under \<^verbatim>\<open>optional()\<close>. When no declared
  property bears a name of \<^verbatim>\<open>Object.prototype\<close>, the validator accepts the object in
  which all of them are absent.
\<close>

theorem omitted_required_makes_optional:
  assumes "property s ''type'' = Some (JStr ''object'')"
    and "property s ''properties'' = Some (JObj props)"
    and "props \<noteq> []"
    and "property s ''required'' = None"
    and "convertSchemaToZod (Some s) = Inr z"
  shows "(\<exists>shape. z = ZObject shape
                  \<and> map fst shape = filter (\<lambda>k. k \<noteq> ''__proto__'') (map fst props)
                  \<and> (\<forall>e \<in> set shape. \<exists>z'. snd e = ZOptional z'))
         \<and> ((\<forall>k \<in> set (map fst props). k \<notin> set object_prototype_keys)
              \<longrightarrow> accepts z (Some (JObj [])))"
proof -
  from assms(1) have "truthy s" by (cases s) auto
  with assms obtain shape where
    sh: "convertProperties None props = Inr shape" "z = ZObject shape"
    by (auto split: sum.splits)
  note np = convertProperties_not_required[OF sh(1)]
  have "accepts z (Some (JObj []))"
    if free: "\<forall>k \<in> set (map fst props). k \<notin> set object_prototype_keys"
  proof -
    have "set (map fst shape) \<subseteq> set (map fst props)"
      using np by auto
    with free have "\<forall>e \<in> set shape. fst e \<notin> set object_prototype_keys"
      by (metis image_eqI list.set_map subsetD)
    with np sh(2) show ?thesis
      by (auto intro: accepts_all_optional)
  qed
  with np sh(2) show ?thesis by blast
qed

theorem omitted_required_makes_optional_witness:
  "convertSchemaToZod (Some string_property_schema) = Inr (ZObject [(''a'', ZOptional ZString)])
   \<and> ''a'' \<notin> set object_prototype_keys
   \<and> accepts (ZObject [(''a'', ZOptional ZString)]) (Some (JObj []))
   \<and> (\<exists>shape. ZObject [(''a'', ZOptional ZString)] = ZObject shape \<and> map fst shape = [''a'']
               \<and> (\<forall>e \<in> set shape. \<exists>z'. snd e = ZOptional z'))"
proof -
  have c: "convertSchemaToZod (Some string_property_schema)
           = Inr (ZObject [(''a'', ZOptional ZString)])"
    by (simp add: string_property_schema_def)
  have f: "\<forall>k \<in> set (map fst [(''a'', JObj [(''type'', JStr ''string'')])]).
             k \<notin> set object_prototype_keys"
    by (simp add: object_prototype_keys_def object_prototype_methods_def)
  have f': "''a'' \<notin> set object_prototype_keys"
    by (simp add: object_prototype_keys_def object_prototype_methods_def)
  show ?thesis
    using c f f' omitted_required_makes_optional
      [of string_property_schema "[(''a'', JObj [(''type'', JStr ''string'')])]"
          "ZObject [(''a'', ZOptional ZString)]"]
    by (simp add: string_property_schema_def)
qed

text \<open>
  Claim C3 as the specification states it (every declared property required) fails:
  for \<^verbatim>\<open>{"type":"object","properties":{"a":{"type":"string"}}}\<close> the validator accepts
  the input \<^verbatim>\<open>{}\<close>, in which the declared property \<^verbatim>\<open>a\<close> is absent.
\<close>

theorem omitted_required_accepts_empty_input:
  "convertSchemaToZod (Some string_property_schema) = Inr (ZObject [(''a'', ZOptional ZString)])
   \<and> accepts (ZObject [(''a'', ZOptional ZString)]) (Some (JObj []))"
  by (simp add: string_property_schema_def accepts_def lookup_member_def inherited_def
      object_prototype_methods_def)

text \<open>
  The two exceptions of the theorem, on examples. A declared property \<^verbatim>\<open>__proto__\<close>
  gives no key of the validator; a declared property \<^verbatim>\<open>constructor\<close> is optional in
  the validator, which nevertheless rejects \<^verbatim>\<open>{}\<close>, where \<^verbatim>\<open>data.constructor\<close> is the
  inherited function and no string.
\<close>

lemma proto_property_gives_no_key:
  "convertSchemaToZod
     (Some (JObj [(''type'', JStr ''object''),
                  (''properties'', JObj [(''__proto__'', JObj [(''type'', JStr ''string'')])])]))
   = Inr (ZObject [])"
  by simp

lemma inherited_member_is_validated:
  "convertSchemaToZod
     (Some (JObj [(''type'', JStr ''object''),
                  (''properties'', JObj [(''constructor'', JObj [(''type'', JStr ''string'')])])]))
   = Inr (ZObject [(''constructor'', ZOptional ZString)])
   \<and> \<not> accepts (ZObject [(''constructor'', ZOptional ZString)]) (Some (JObj []))"
  by (simp add: accepts_def lookup_member_def inherited_def object_prototype_methods_def)

section \<open>The request correlator: properties\<close>












section \<open>The registry: properties\<close>

lemma run_task_frame:
  "servers (run_task P a st t) = servers st \<and> length (heap (run_task P a st t)) = length (heap st)"
proof -
  obtain i c out where t: "t = (i, c, out)" by (cases t)
  show ?thesis unfolding t
    by (cases c; cases out)
       (auto simp: update_server_def settle_def log_error_def split: prod.splits sum.splits)
qed

lemma foldl_run_task_frame:
  "servers (foldl (run_task P a) st q) = servers st
   \<and> length (heap (foldl (run_task P a) st q)) = length (heap st)"
  by (induction q arbitrary: st) (simp_all add: run_task_frame)

lemma foldl_return_frame:
  "servers (foldl return_startServer st ts) = servers st
   \<and> heap (foldl return_startServer st ts) = heap st"
  by (induction ts arbitrary: st) (simp_all add: return_startServer_def settle_def)

lemma on_line_frame:
  "servers (fst (on_line P a stq l)) = servers (fst stq)
   \<and> length (heap (fst (on_line P a stq l))) = length (heap (fst stq))"
  by (cases stq)
     (auto simp: on_line_def update_server_def log_error_def split: option.splits sum.splits)

lemma foldl_on_line_frame:
  "servers (fst (foldl (on_line P a) stq ls)) = servers (fst stq)
   \<and> length (heap (fst (foldl (on_line P a) stq ls))) = length (heap (fst stq))"
  by (induction ls arbitrary: stq) (simp_all add: on_line_frame)

lemma on_lines_frame:
  "servers (on_lines P a st ls) = servers st
   \<and> length (heap (on_lines P a st ls)) = length (heap st)"
  using foldl_on_line_frame[of P a "(st, [])" ls]
  by (auto simp: on_lines_def foldl_run_task_frame foldl_return_frame split: prod.splits)

lemma call_handler_frame:
  "servers (call_handler P t h params st) = servers st
   \<and> length (heap (call_handler P t h params st)) = length (heap st)"
  by (cases h)
     (auto simp: update_server_def settle_def log_error_def simp del: handler_prints.simps
        split: sum.splits)

lemma update_fresh: "map_of r c = None \<Longrightarrow> AList.update c a r = r @ [(c, a)]"
  by (induction r) (auto split: if_splits)

lemma wf_startServer: "wf_manager st \<Longrightarrow> wf_manager (startServer P t c sp st)"
  by (cases sp)
     (auto simp: wf_manager_def startServer_def settle_def update_fresh map_of_eq_None_iff
           less_Suc_eq split: bool.splits)

lemma wf_stop_one: "wf_manager st \<Longrightarrow> wf_manager (stop_one c st)"
  by (auto simp: wf_manager_def stop_one_def distinct_delete AList.delete_eq distinct_map_filter split: option.splits)

lemma wf_stop_all: "wf_manager st \<Longrightarrow> wf_manager (foldl (\<lambda>st' c. stop_one c st') st cs)"
  by (induction cs arbitrary: st) (simp_all add: wf_stop_one)

lemma wf_step: "wf_manager st \<Longrightarrow> wf_manager (step P st ev)"
proof (cases ev)
  case (StartServer t c sp)
  assume "wf_manager st"
  then show ?thesis using StartServer by (simp add: wf_startServer)
next
  case (StopServer t c)
  assume "wf_manager st"
  from wf_stop_one[OF this, of c] show ?thesis using StopServer
    by (simp add: stopServer_def settle_def wf_manager_def)
next
  case (StopAllServers t)
  assume "wf_manager st"
  from wf_stop_all[OF this, of "map fst (servers st)"] show ?thesis using StopAllServers
    by (simp add: stopAllServers_def settle_def wf_manager_def)
next
  case (CallHandler t h params)
  assume "wf_manager st"
  then show ?thesis using CallHandler call_handler_frame[of P t h params st]
    by (simp add: wf_manager_def)
next
  case (Lines a ls)
  assume "wf_manager st"
  then show ?thesis using Lines on_lines_frame[of P a st ls]
    by (simp add: wf_manager_def)
next
  case (ProcessExit a)
  assume "wf_manager st"
  then show ?thesis using ProcessExit
    by (auto simp: wf_manager_def process_exit_def distinct_delete AList.delete_eq distinct_map_filter)
next
  case (ProcessError a)
  assume "wf_manager st"
  then show ?thesis using ProcessError
    by (auto simp: wf_manager_def process_error_def process_exit_def log_error_def
          distinct_delete AList.delete_eq distinct_map_filter)
qed

lemma wf_run: "wf_manager st \<Longrightarrow> wf_manager (run P st evs)"
  unfolding run_def by (induction evs arbitrary: st) (simp_all add: wf_step)

lemma wf_reachable: "wf_manager (run P new_manager evs)"
  by (rule wf_run) (simp add: wf_manager_def new_manager_def)

lemma entries_of_distinct:
  "distinct (map fst r) \<Longrightarrow> map_of r c = Some a \<Longrightarrow> filter (\<lambda>e. fst e = c) r = [(c, a)]"
proof (induction r)
  case Nil
  then show ?case by simp
next
  case (Cons e r)
  obtain k v where e: "e = (k, v)" by (cases e)
  show ?case
  proof (cases "k = c")
    case True
    with Cons.prems e have "v = a" and "\<forall>x \<in> set r. fst x \<noteq> c" by auto
    then have "filter (\<lambda>e. fst e = c) r = []" by (simp add: filter_empty_conv)
    with True e \<open>v = a\<close> show ?thesis by simp
  next
    case False
    with Cons e show ?thesis by simp
  qed
qed

lemma startServer_registered:
  "wf_manager st \<Longrightarrow>
   \<exists>a. map_of (servers (startServer P t c (Spawned True) st)) c = Some a
       \<and> a < length (heap (startServer P t c (Spawned True) st))
       \<and> (map_of (servers st) c = None \<longrightarrow> a = length (heap st))"
  by (cases "map_of (servers st) c")
     (auto simp: startServer_def settle_def update_conv' wf_manager_def dest!: map_of_SomeD)

lemma startServer_other:
  "c' \<noteq> c \<Longrightarrow> map_of (servers (startServer P t c sp st)) c' = map_of (servers st) c'"
  by (cases sp) (auto simp: startServer_def settle_def update_conv' split: bool.splits)

lemma distinct_addresses:
  "distinct (map snd r) \<Longrightarrow> map_of r c1 = Some a1 \<Longrightarrow> map_of r c2 = Some a2 \<Longrightarrow> c1 \<noteq> c2
   \<Longrightarrow> a1 \<noteq> a2"
proof
  assume d: "distinct (map snd r)" and m1: "map_of r c1 = Some a1" and m2: "map_of r c2 = Some a2"
    and ne: "c1 \<noteq> c2" and eq: "a1 = a2"
  from m1 m2 have "(c1, a1) \<in> set r" "(c2, a2) \<in> set r" by (auto dest: map_of_SomeD)
  moreover from d have "inj_on snd (set r)" by (simp add: distinct_map)
  ultimately have "(c1, a1) = (c2, a2)"
    using eq inj_onD[of snd "set r" "(c1, a1)" "(c2, a2)"] by simp
  with ne show False by simp
qed

text \<open>
  Claim C6. After any history of the manager, starting two different commands (each
  launch giving a process) leaves each of them with exactly one registry entry, and the
  two entries name different server objects. Starting a command that has just been
  started changes nothing but the promise of the second call, which is fulfilled at once:
  no process is launched, whatever the launch would have given, and the command keeps its
  one entry.
\<close>

theorem startServer_idempotent:
  assumes "c1 \<noteq> c2" and "st = run P new_manager evs"
    and "st1 = step P st (StartServer t1 c1 (Spawned True))"
    and "st2 = step P st1 (StartServer t2 c2 (Spawned True))"
    and "st1' = step P st1 (StartServer t3 c1 sp)"
  shows "(\<exists>a1 a2. a1 \<noteq> a2 \<and> entries_of c1 st2 = [(c1, a1)] \<and> entries_of c2 st2 = [(c2, a2)])
       \<and> st1' = settle t3 (Fulfilled None) st1
       \<and> (\<exists>a. entries_of c1 st1' = [(c1, a)])"
proof -
  have wf: "wf_manager st" using assms(2) wf_reachable by simp
  then have wf1: "wf_manager st1" using assms(3) by (simp add: wf_startServer)
  then have wf2: "wf_manager st2" using assms(4) by (simp add: wf_startServer)
  from startServer_registered[OF wf, of P t1 c1] assms(3)
  obtain a1 where a1: "map_of (servers st1) c1 = Some a1" by auto
  from startServer_registered[OF wf1, of P t2 c2] assms(4)
  obtain a2 where a2: "map_of (servers st2) c2 = Some a2" by auto
  have a1': "map_of (servers st2) c1 = Some a1"
    using a1 assms(1,4) startServer_other[of c1 c2 P t2 "Spawned True" st1] by simp
  have ne: "a1 \<noteq> a2"
    using wf2 a1' a2 assms(1) by (auto simp: wf_manager_def dest: distinct_addresses)
  have e1: "entries_of c1 st2 = [(c1, a1)]" and e2: "entries_of c2 st2 = [(c2, a2)]"
    using wf2 a1' a2 by (simp_all add: wf_manager_def entries_of_def entries_of_distinct)
  have again: "st1' = settle t3 (Fulfilled None) st1"
    using a1 assms(5) by (simp add: startServer_def)
  have "entries_of c1 st1' = [(c1, a1)]"
    using wf1 a1 again by (simp add: wf_manager_def entries_of_def entries_of_distinct settle_def)
  with ne e1 e2 again show ?thesis by blast
qed

theorem startServer_idempotent_witness:
  "''alpha'' \<noteq> ''beta''
   \<and> (\<exists>a1 a2. a1 \<noteq> a2
        \<and> entries_of ''alpha''
             (step (example_platform [])
                (step (example_platform []) (run (example_platform []) new_manager [])
                   (StartServer 0 ''alpha'' (Spawned True)))
                (StartServer 1 ''beta'' (Spawned True))) = [(''alpha'', a1)]
        \<and> entries_of ''beta''
             (step (example_platform [])
                (step (example_platform []) (run (example_platform []) new_manager [])
                   (StartServer 0 ''alpha'' (Spawned True)))
                (StartServer 1 ''beta'' (Spawned True))) = [(''beta'', a2)])"
proof -
  have h: "''alpha'' \<noteq> ''beta''" by simp
  show ?thesis
    using h startServer_idempotent
      [OF h refl refl refl refl, of "example_platform []" "[]" 0 1 2 "Spawned True"]
    by blast
qed

section \<open>Inbound lines and the handshake: properties\<close>

lemma same_state_refl: "same_state st st"
  by (simp add: same_state_def)

lemma same_state_log_error: "same_state (log_error m st) st"
  by (simp add: same_state_def log_error_def)

lemma on_line_same:
  "same_state st st' \<Longrightarrow>
   same_state (fst (on_line P a (st, q) l)) (fst (on_line P a (st', q) l))
   \<and> snd (on_line P a (st, q) l) = snd (on_line P a (st', q) l)"
  by (auto simp: same_state_def on_line_def update_server_def log_error_def
        split: option.splits sum.splits)

lemma foldl_on_line_same:
  "same_state st st' \<Longrightarrow>
   same_state (fst (foldl (on_line P a) (st, q) ls)) (fst (foldl (on_line P a) (st', q) ls))
   \<and> snd (foldl (on_line P a) (st, q) ls) = snd (foldl (on_line P a) (st', q) ls)"
proof (induction ls arbitrary: st st' q)
  case Nil
  then show ?case by simp
next
  case (Cons l ls)
  obtain r q1 where r: "on_line P a (st, q) l = (r, q1)" by (cases "on_line P a (st, q) l")
  obtain r' q1' where r': "on_line P a (st', q) l = (r', q1')"
    by (cases "on_line P a (st', q) l")
  from on_line_same[OF Cons.prems, of P a q l] r r' have "same_state r r'" "q1 = q1'" by simp_all
  with Cons.IH[of r r' q1] r r' show ?case by simp
qed

lemma run_task_same:
  "same_state st st' \<Longrightarrow> same_state (run_task P a st t) (run_task P a st' t)"
proof -
  assume s: "same_state st st'"
  obtain i c out where t: "t = (i, c, out)" by (cases t)
  show ?thesis unfolding t using s
    by (cases c; cases out)
       (auto simp: same_state_def update_server_def settle_def log_error_def
             split: prod.splits sum.splits)
qed

lemma foldl_run_task_same:
  "same_state st st' \<Longrightarrow>
   same_state (foldl (run_task P a) st q) (foldl (run_task P a) st' q)"
  by (induction q arbitrary: st st') (simp_all add: run_task_same)

text \<open>
  Claim C7. A line that \<^verbatim>\<open>JSON.parse\<close> rejects is logged and dropped by the line
  listener: the manager is left as it was but for one entry of the error log, and no
  promise is queued for settling. The other lines of the same chunk are handled as if
  the line had not been there: with and without it the chunk leads to the same registry,
  the same server objects and the same settled promises.
\<close>

lemma foldl_return_same:
  "same_state st st' \<Longrightarrow>
   same_state (foldl return_startServer st ts) (foldl return_startServer st' ts)"
  by (induction ts arbitrary: st st')
     (simp_all add: same_state_def return_startServer_def settle_def)

theorem malformed_line_dropped:
  assumes "json_parse P line = None"
  shows "on_line P a (st, q) line = (log_error ''Failed to parse MCP message'' st, q)
       \<and> same_state (step P st (Lines a (before @ line # after)))
                     (step P st (Lines a (before @ after)))"
proof -
  have one: "on_line P a (st, q) line = (log_error ''Failed to parse MCP message'' st, q)"
    for st q using assms by (simp add: on_line_def)
  obtain st1 q1 where b: "foldl (on_line P a) (st, []) before = (st1, q1)"
    by (cases "foldl (on_line P a) (st, []) before")
  let ?bad = "log_error ''Failed to parse MCP message'' st1"
  obtain r q2 where r: "foldl (on_line P a) (?bad, q1) after = (r, q2)"
    by (cases "foldl (on_line P a) (?bad, q1) after")
  obtain r' q2' where r': "foldl (on_line P a) (st1, q1) after = (r', q2')"
    by (cases "foldl (on_line P a) (st1, q1) after")
  from foldl_on_line_same[where st="?bad" and st'=st1 and P=P and a=a and q=q1 and ls=after,
      OF same_state_log_error] r r'
  have "same_state r r'" "q2 = q2'" by simp_all
  then have "same_state
      (foldl return_startServer (foldl (run_task P a) r q2) (concat (map returns_after q2)))
      (foldl return_startServer (foldl (run_task P a) r' q2') (concat (map returns_after q2')))"
    by (simp add: foldl_run_task_same foldl_return_same)
  then have "same_state (on_lines P a st (before @ line # after)) (on_lines P a st (before @ after))"
    using b r r' one by (simp add: on_lines_def)
  then show ?thesis using one by (simp add: same_state_refl)
qed

theorem malformed_line_dropped_witness:
  "json_parse failing_initialize ''not json'' = None
   \<and> on_line failing_initialize 0 (new_manager, []) ''not json''
       = (log_error ''Failed to parse MCP message'' new_manager, [])
   \<and> same_state
        (step failing_initialize
           (step failing_initialize new_manager (StartServer 0 ''srv'' (Spawned True)))
           (Lines 0 ([] @ ''not json'' # [boom_line])))
        (step failing_initialize
           (step failing_initialize new_manager (StartServer 0 ''srv'' (Spawned True)))
           (Lines 0 ([] @ [boom_line])))"
proof -
  have h: "json_parse failing_initialize ''not json'' = None"
    by code_simp
  show ?thesis
    using h malformed_line_dropped [OF h, of 0 new_manager "[]"]
      malformed_line_dropped [OF h, of 0
        "step failing_initialize new_manager (StartServer 0 ''srv'' (Spawned True))" _
        "[]" "[boom_line]"]
    by blast
qed

lemma start_fresh:
  "map_of (servers st) c = None \<Longrightarrow>
   startServer P t c (Spawned True) st =
     st\<lparr>servers := servers st @ [(c, length (heap st))],
        heap := heap st @
          [(new_server c)\<lparr>nextId := 2, pendingRequests := [1 \<mapsto> AwaitInitialize t],
             stdin := [json_stringify P (request_json 1 ''initialize'' (Some initialize_params))
                       @ newline]\<rparr>]\<rparr>"
  by (simp add: startServer_def update_fresh sendRequest_def new_server_def js_inc_def)

text \<open>
  Claim C1, as the code has it. \<^verbatim>\<open>startServer\<close> for a command that is not registered
  puts the session into the registry before the handshake, so the command is in
  \<^verbatim>\<open>getActiveServers()\<close> while \<^verbatim>\<open>startServer\<close> is still pending; when \<^verbatim>\<open>initialize\<close>
  (request 1 of the new session) is then answered by an error response whose message
  has a string form (as every string has), \<^verbatim>\<open>startServer\<close> fails with the \<^verbatim>\<open>Error\<close>
  made from the message of that response.
\<close>

theorem initialize_error_fails_startServer:
  assumes "map_of (servers st) c = None"
    and "json_parse P line = Some (JObj kvs)"
    and "map_of kvs ''id'' = Some (JNum 1)"
    and "map_of kvs ''error'' = Some e" and "truthy e"
    and "message_has_string_form e"
    and "st1 = step P st (StartServer t c (Spawned True))"
    and "st2 = step P st1 (Lines (length (heap st)) [line])"
  shows "c \<in> set (getActiveServers st1) \<and> settled st1 = settled st
       \<and> settled st2 = settled st @ [(t, Threw (Error (property e ''message'')))]"
proof -
  have o: "response_outcome kvs = Inr (Rejected (Error (property e ''message'')))"
    using assms(4,5,6)
    by (auto simp: response_outcome_def message_has_string_form_def split: option.splits)
  show ?thesis
    using assms(1,2,3,7,8) o
    by (simp add: start_fresh getActiveServers_def on_lines_def on_line_def pending_get_def
        is_integer_def update_server_def settle_def new_server_def)
qed

theorem initialize_error_fails_startServer_witness:
  "map_of (servers new_manager) ''srv'' = None
   \<and> ''srv'' \<in> set (getActiveServers
         (step failing_initialize new_manager (StartServer 0 ''srv'' (Spawned True))))
   \<and> settled (step failing_initialize
         (step failing_initialize new_manager (StartServer 0 ''srv'' (Spawned True)))
         (Lines 0 [boom_line]))
       = [(0, Threw (Error (Some (JStr ''boom''))))]"
proof -
  have h1: "map_of (servers new_manager) ''srv'' = None"
    by (simp add: new_manager_def)
  have h2: "json_parse failing_initialize boom_line
            = Some (JObj [(''jsonrpc'', JStr ''2.0''), (''id'', JNum 1),
                 (''error'', JObj [(''message'', JStr ''boom'')])])"
    by code_simp
  have h3: "map_of [(''jsonrpc'', JStr ''2.0''), (''id'', JNum 1),
                 (''error'', JObj [(''message'', JStr ''boom'')])]
              ''id'' = Some (JNum 1)"
    by simp
  have h4: "map_of [(''jsonrpc'', JStr ''2.0''), (''id'', JNum 1),
                 (''error'', JObj [(''message'', JStr ''boom'')])]
              ''error'' = Some (JObj [(''message'', JStr ''boom'')])"
    by simp
  have h5: "truthy (JObj [(''message'', JStr ''boom'')])"
    by simp
  have h6: "message_has_string_form (JObj [(''message'', JStr ''boom'')])"
    by (simp add: message_has_string_form_def)
  show ?thesis
    using h1 initialize_error_fails_startServer [OF h1 h2 h3 h4 h5 h6 refl refl, of 0]
    by (simp add: new_manager_def)
qed

text \<open>
  Claim C1 as the specification states it (the failed session is never registered)
  fails: after \<^verbatim>\<open>startServer("srv")\<close> and an error response to \<^verbatim>\<open>initialize\<close>,
  \<^verbatim>\<open>startServer\<close> has failed and \<^verbatim>\<open>getActiveServers()\<close> still lists the command.
\<close>

theorem initialize_error_leaves_session_registered:
  "settled (run failing_initialize new_manager
      [StartServer 0 ''srv'' (Spawned True), Lines 0 [boom_line]])
     = [(0, Threw (Error (Some (JStr ''boom''))))]
   \<and> getActiveServers (run failing_initialize new_manager
      [StartServer 0 ''srv'' (Spawned True), Lines 0 [boom_line]]) = [''srv'']"
  by code_simp

text \<open>
  An error response whose message has no string form, on an example: for
  \<^verbatim>\<open>{"jsonrpc":"2.0","id":1,"error":{"message":{"toString":0}}}\<close> line 146 throws
  before the promise is rejected, the line listener logs the exception, and
  \<^verbatim>\<open>initialize\<close> stays pending, so that \<^verbatim>\<open>startServer\<close> neither fails nor returns.
\<close>

lemma unconvertible_error_message_settles_nothing:
  "settled (run (example_platform [unconvertible_error]) new_manager
      [StartServer 0 ''srv'' (Spawned True),
       Lines 0 [example_stringify unconvertible_error]]) = []
   \<and> error_log (run (example_platform [unconvertible_error]) new_manager
      [StartServer 0 ''srv'' (Spawned True),
       Lines 0 [example_stringify unconvertible_error]]) = [''Failed to parse MCP message'']
   \<and> pendingRequests (heap (run (example_platform [unconvertible_error]) new_manager
      [StartServer 0 ''srv'' (Spawned True),
       Lines 0 [example_stringify unconvertible_error]]) ! 0) 1 = Some (AwaitInitialize 0)"
  by code_simp

text \<open>
  Claim C8. When \<^verbatim>\<open>initialize\<close> (request 1 of the new session) is answered without an
  error and \<^verbatim>\<open>tools/list\<close> (request 2) is answered by an error response whose message
  has a string form (as every string has), \<^verbatim>\<open>startServer\<close> completes successfully, the
  command is registered with the new session, the tool list of the session is the empty
  list, and the failure is logged.
\<close>

theorem failed_tools_list_is_not_fatal:
  assumes "map_of (servers st) c = None"
    and "json_parse P line1 = Some (JObj kvs1)"
    and "map_of kvs1 ''id'' = Some (JNum 1)"
    and "\<not> truthy_opt (map_of kvs1 ''error'')"
    and "json_parse P line2 = Some (JObj kvs2)"
    and "map_of kvs2 ''id'' = Some (JNum 2)"
    and "map_of kvs2 ''error'' = Some e" and "truthy e"
    and "message_has_string_form e"
    and "a = length (heap st)"
    and "st3 = run P st [StartServer t c (Spawned True), Lines a [line1], Lines a [line2]]"
  shows "settled st3 = settled st @ [(t, Fulfilled None)]
       \<and> map_of (servers st3) c = Some a
       \<and> tools (heap st3 ! a) = JArr []
       \<and> error_log st3 = error_log st @ [''Failed to list MCP tools'']"
proof -
  have o1: "\<exists>r. response_outcome kvs1 = Inr (Resolved r)"
    using assms(4) by (cases "map_of kvs1 ''error''") (auto simp: response_outcome_def)
  then obtain r where r: "response_outcome kvs1 = Inr (Resolved r)" by blast
  have o2: "response_outcome kvs2 = Inr (Rejected (Error (property e ''message'')))"
    using assms(7,8,9)
    by (auto simp: response_outcome_def message_has_string_form_def split: option.splits)
  show ?thesis
    using assms(1,2,3,5,6,10,11) r o2
    by (simp add: run_def start_fresh on_lines_def on_line_def pending_get_def
      is_integer_def update_server_def settle_def log_error_def
      new_server_def sendRequest_def js_inc_def map_add_def listTools_def
      return_startServer_def)
qed

theorem failed_tools_list_is_not_fatal_witness:
  "map_of (servers new_manager) ''srv'' = None
   \<and> settled (run failing_tools_list new_manager
        [StartServer 0 ''srv'' (Spawned True),
         Lines 0 [example_stringify (response 1 (JObj []))],
         Lines 0 [example_stringify (error_response 2 ''no tools'')]]) = [(0, Fulfilled None)]
   \<and> map_of (servers (run failing_tools_list new_manager
        [StartServer 0 ''srv'' (Spawned True),
         Lines 0 [example_stringify (response 1 (JObj []))],
         Lines 0 [example_stringify (error_response 2 ''no tools'')]])) ''srv'' = Some 0
   \<and> tools (heap (run failing_tools_list new_manager
        [StartServer 0 ''srv'' (Spawned True),
         Lines 0 [example_stringify (response 1 (JObj []))],
         Lines 0 [example_stringify (error_response 2 ''no tools'')]]) ! 0) = JArr []"
proof -
  have h1: "map_of (servers new_manager) ''srv'' = None"
    by (simp add: new_manager_def)
  have h2: "json_parse failing_tools_list (example_stringify (response 1 (JObj [])))
            = Some (JObj [(''jsonrpc'', JStr ''2.0''), (''id'', JNum 1), (''result'', JObj [])])"
    by code_simp
  have h3: "map_of [(''jsonrpc'', JStr ''2.0''), (''id'', JNum 1), (''result'', JObj [])] ''id''
            = Some (JNum 1)"
    by simp
  have h4: "\<not> truthy_opt (map_of [(''jsonrpc'', JStr ''2.0''), (''id'', JNum 1),
              (''result'', JObj [])] ''error'')"
    by simp
  have h5: "json_parse failing_tools_list (example_stringify (error_response 2 ''no tools''))
            = Some (JObj [(''jsonrpc'', JStr ''2.0''), (''id'', JNum 2),
                 (''error'', JObj [(''message'', JStr ''no tools'')])])"
    by code_simp
  have h6: "map_of [(''jsonrpc'', JStr ''2.0''), (''id'', JNum 2),
                 (''error'', JObj [(''message'', JStr ''no tools'')])] ''id'' = Some (JNum 2)"
    by simp
  have h7: "map_of [(''jsonrpc'', JStr ''2.0''), (''id'', JNum 2),
                 (''error'', JObj [(''message'', JStr ''no tools'')])] ''error''
            = Some (JObj [(''message'', JStr ''no tools'')])"
    by simp
  have h8: "truthy (JObj [(''message'', JStr ''no tools'')])"
    by simp
  have h9: "message_has_string_form (JObj [(''message'', JStr ''no tools'')])"
    by (simp add: message_has_string_form_def)
  have h10: "0 = length (heap new_manager)"
    by (simp add: new_manager_def)
  show ?thesis
    using h1 failed_tools_list_is_not_fatal [OF h1 h2 h3 h4 h5 h6 h7 h8 h9 h10 refl, of 0]
    by (simp add: new_manager_def)
qed

section \<open>The tool catalog: properties\<close>

lemma convert_tool_name:
  "convert_tool P a tool = Inr d \<Longrightarrow> property tool ''name'' = Some (JStr n) \<Longrightarrow>
   name d = ''mcp_'' @ n \<and> handler d = (a, Some (JStr n))"
  by (auto simp: convert_tool_def js_toString_def split: if_splits sum.splits)

lemma convert_tools_mem:
  "convert_tools P a ts = Inr ds \<Longrightarrow> tool \<in> set ts \<Longrightarrow>
   \<exists>d \<in> set ds. convert_tool P a tool = Inr d"
proof (induction ts arbitrary: ds)
  case Nil
  then show ?case by simp
next
  case (Cons x ts)
  from Cons.prems(1) obtain d ds' where
    d: "convert_tool P a x = Inr d" "convert_tools P a ts = Inr ds'" "ds = d # ds'"
    by (auto split: sum.splits)
  show ?case
  proof (cases "tool = x")
    case True
    with d show ?thesis by simp
  next
    case False
    with Cons.prems(2) have "tool \<in> set ts" by simp
    from Cons.IH[OF d(2) this] d(3) show ?thesis by auto
  qed
qed

lemma catalog_mem:
  "catalog P h reg = Inr ds \<Longrightarrow> (c, a) \<in> set reg \<Longrightarrow> iterate (tools (h ! a)) = Inr ts \<Longrightarrow>
   tool \<in> set ts \<Longrightarrow> \<exists>d \<in> set ds. convert_tool P a tool = Inr d"
proof (induction reg arbitrary: ds)
  case Nil
  then show ?case by simp
next
  case (Cons e reg)
  obtain c' a' where e: "e = (c', a')" by (cases e)
  from Cons.prems(1) e obtain ts' ds1 ds2 where
    p: "iterate (tools (h ! a')) = Inr ts'" "convert_tools P a' ts' = Inr ds1"
       "catalog P h reg = Inr ds2" "ds = ds1 @ ds2"
    by (auto split: sum.splits)
  show ?case
  proof (cases "(c, a) = e")
    case True
    with e p(1) Cons.prems(3) have "ts' = ts" "a' = a" by simp_all
    with convert_tools_mem[OF p(2), of tool] Cons.prems(4) p(4) show ?thesis by auto
  next
    case False
    with Cons.prems(2) have "(c, a) \<in> set reg" by simp
    from Cons.IH[OF p(3) this Cons.prems(3,4)] p(4) show ?thesis by auto
  qed
qed

text \<open>
  Claim C2, as the code has it. After any history of the manager, when two registered
  sessions each have a tool of the same name \<open>n\<close> and \<^verbatim>\<open>getAllTools()\<close> gives a catalog,
  the catalog holds an entry for each of the two, bound to its own session, and both
  entries carry the same name, the fixed prefix \<^verbatim>\<open>mcp_\<close> followed by \<open>n\<close>: the two
  descriptors differ in the session their handler calls, not in their name.
\<close>

theorem same_tool_name_same_qualified_name:
  assumes "st = run P new_manager evs"
    and "getAllTools P st = Inr ds"
    and "c1 \<noteq> c2"
    and "map_of (servers st) c1 = Some a1" and "map_of (servers st) c2 = Some a2"
    and "tools (heap st ! a1) = JArr ts1" and "tool1 \<in> set ts1"
    and "property tool1 ''name'' = Some (JStr n)"
    and "tools (heap st ! a2) = JArr ts2" and "tool2 \<in> set ts2"
    and "property tool2 ''name'' = Some (JStr n)"
  shows "\<exists>d1 \<in> set ds. \<exists>d2 \<in> set ds.
           d1 \<noteq> d2 \<and> name d1 = ''mcp_'' @ n \<and> name d2 = ''mcp_'' @ n
           \<and> handler d1 = (a1, Some (JStr n)) \<and> handler d2 = (a2, Some (JStr n))"
proof -
  have "wf_manager st" using assms(1) wf_reachable by simp
  then have ne: "a1 \<noteq> a2"
    using assms(3,4,5) by (auto simp: wf_manager_def dest: distinct_addresses)
  have r1: "(c1, a1) \<in> set (servers st)" and r2: "(c2, a2) \<in> set (servers st)"
    using assms(4,5) by (auto dest: map_of_SomeD)
  from catalog_mem[of P "heap st" "servers st" ds c1 a1 ts1 tool1] assms(2,6,7) r1
  obtain d1 where d1: "d1 \<in> set ds" "convert_tool P a1 tool1 = Inr d1"
    by (auto simp: getAllTools_def)
  from catalog_mem[of P "heap st" "servers st" ds c2 a2 ts2 tool2] assms(2,9,10) r2
  obtain d2 where d2: "d2 \<in> set ds" "convert_tool P a2 tool2 = Inr d2"
    by (auto simp: getAllTools_def)
  from convert_tool_name[OF d1(2) assms(8)]
  have n1: "name d1 = ''mcp_'' @ n" "handler d1 = (a1, Some (JStr n))" by simp_all
  from convert_tool_name[OF d2(2) assms(11)]
  have n2: "name d2 = ''mcp_'' @ n" "handler d2 = (a2, Some (JStr n))" by simp_all
  from n1(2) n2(2) ne have "d1 \<noteq> d2" by auto
  with d1(1) d2(1) n1 n2 show ?thesis by blast
qed

theorem same_tool_name_same_qualified_name_witness:
  "''alpha'' \<noteq> ''beta''
   \<and> (\<exists>d1 \<in> set [\<lparr>name = ''mcp_search'', description = Some (JStr ''Searches''),
                     parameters = ZObject [(''query'', ZString)],
                     handler = (0, Some (JStr ''search''))\<rparr>,
                   \<lparr>name = ''mcp_search'', description = Some (JStr ''Searches''),
                     parameters = ZObject [(''query'', ZString)],
                     handler = (1, Some (JStr ''search''))\<rparr>].
       \<exists>d2 \<in> set [\<lparr>name = ''mcp_search'', description = Some (JStr ''Searches''),
                     parameters = ZObject [(''query'', ZString)],
                     handler = (0, Some (JStr ''search''))\<rparr>,
                   \<lparr>name = ''mcp_search'', description = Some (JStr ''Searches''),
                     parameters = ZObject [(''query'', ZString)],
                     handler = (1, Some (JStr ''search''))\<rparr>].
         d1 \<noteq> d2 \<and> name d1 = ''mcp_'' @ ''search'' \<and> name d2 = ''mcp_'' @ ''search''
         \<and> handler d1 = (0, Some (JStr ''search'')) \<and> handler d2 = (1, Some (JStr ''search'')))"
proof -
  have h1: "two_sessions = run search_platform new_manager
       [StartServer 0 ''alpha'' (Spawned True),
        Lines 0 [example_stringify (response 1 (JObj []))],
        Lines 0 [example_stringify (response 2 (JObj [(''tools'', JArr [search_tool])]))],
        StartServer 1 ''beta'' (Spawned True),
        Lines 1 [example_stringify (response 1 (JObj []))],
        Lines 1 [example_stringify (response 2 (JObj [(''tools'', JArr [search_tool])]))]]"
    by (rule two_sessions_def)
  have h2: "getAllTools search_platform two_sessions
            = Inr [\<lparr>name = ''mcp_search'', description = Some (JStr ''Searches''),
                     parameters = ZObject [(''query'', ZString)],
                     handler = (0, Some (JStr ''search''))\<rparr>,
                   \<lparr>name = ''mcp_search'', description = Some (JStr ''Searches''),
                     parameters = ZObject [(''query'', ZString)],
                     handler = (1, Some (JStr ''search''))\<rparr>]"
    by code_simp
  have h3: "''alpha'' \<noteq> ''beta''" by simp
  have h4: "map_of (servers two_sessions) ''alpha'' = Some 0" by code_simp
  have h5: "map_of (servers two_sessions) ''beta'' = Some 1" by code_simp
  have h6: "tools (heap two_sessions ! 0) = JArr [search_tool]" by code_simp
  have h7: "tools (heap two_sessions ! 1) = JArr [search_tool]" by code_simp
  have h8: "search_tool \<in> set [search_tool]" by simp
  have h9: "property search_tool ''name'' = Some (JStr ''search'')"
    by (simp add: search_tool_def)
  show ?thesis
    using h3 same_tool_name_same_qualified_name [OF h1 h2 h3 h4 h5 h6 h8 h9 h7 h8 h9]
    by blast
qed

text \<open>
  Claim C2 as the specification states it (no name collision in the catalog) fails:
  with the sessions \<^verbatim>\<open>alpha\<close> and \<^verbatim>\<open>beta\<close> each exposing a tool \<^verbatim>\<open>search\<close>, the names
  in the catalog are \<^verbatim>\<open>mcp_search\<close> twice.
\<close>

theorem same_tool_name_collides:
  "getActiveServers two_sessions = [''alpha'', ''beta'']
   \<and> map_sum id (map name) (getAllTools search_platform two_sessions)
       = Inr [''mcp_search'', ''mcp_search'']"
  by code_simp

section \<open>The result of a tool call: properties\<close>

lemma text_blocks_filter:
  "JNull \<notin> set blocks \<Longrightarrow> text_blocks blocks = Inr (filter is_text_block blocks)"
  by (induction blocks) (auto simp: is_text_block_def)

lemma join_element_text_of:
  "(case x of None \<Rightarrow> True | Some v \<Rightarrow> has_string_form v) \<Longrightarrow>
   join_element P x = Inr (text_of P x)"
proof (cases x)
  case None
  then show ?thesis by simp
next
  case (Some v)
  assume "case x of None \<Rightarrow> True | Some v \<Rightarrow> has_string_form v"
  with Some have "has_string_form v" by simp
  with Some show ?thesis by (cases v) (simp_all add: js_toString_def)
qed

lemma in_turn_texts:
  "list_all (\<lambda>c. case property c ''text'' of None \<Rightarrow> True | Some v \<Rightarrow> has_string_form v) bs \<Longrightarrow>
   in_turn (map (\<lambda>c. join_element P (property c ''text'')) bs)
   = Inr (map (\<lambda>c. text_of P (property c ''text'')) bs)"
  by (induction bs) (simp_all add: join_element_text_of)

lemma tool_result_content:
  "property result ''content'' = Some (JArr blocks) \<Longrightarrow> JNull \<notin> set blocks \<Longrightarrow>
   texts_have_string_form blocks \<Longrightarrow>
   tool_result P (Some result) = Inr (join newline (texts_of_text_blocks P blocks))"
  by (cases result)
     (simp_all add: text_blocks_filter texts_of_text_blocks_def texts_have_string_form_def
       in_turn_texts)

lemma tool_result_other:
  "result \<noteq> JNull \<Longrightarrow> \<forall>blocks. property result ''content'' \<noteq> Some (JArr blocks) \<Longrightarrow>
   tool_result P (Some result) = Inr (json_stringify P result)"
  by (cases result) (auto split: option.splits json.splits)

text \<open>
  Claim C5, as the code has it. When \<^verbatim>\<open>tools/call\<close> succeeds with a result that is not
  \<^verbatim>\<open>null\<close>: if the result has a \<^verbatim>\<open>content\<close> that is an array without \<^verbatim>\<open>null\<close>
  elements, in which the text of every text block has a string form (as every string
  has), the handler returns the texts of its text blocks joined with newlines; if it
  has no \<^verbatim>\<open>content\<close> that is an array, the handler returns the result JSON-encoded. When
  the call fails, the handler logs and throws the same error on, and sends nothing again.
\<close>

theorem tool_call_result:
  assumes "result \<noteq> JNull"
  shows "(\<forall>blocks. property result ''content'' = Some (JArr blocks) \<longrightarrow> JNull \<notin> set blocks \<longrightarrow>
            texts_have_string_form blocks \<longrightarrow>
            run_task P a st (i, AwaitToolCall t, Resolved (Some result))
            = settle t (Fulfilled (Some (join newline (texts_of_text_blocks P blocks)))) st)
       \<and> ((\<forall>blocks. property result ''content'' \<noteq> Some (JArr blocks)) \<longrightarrow>
            run_task P a st (i, AwaitToolCall t, Resolved (Some result))
            = settle t (Fulfilled (Some (json_stringify P result))) st)
       \<and> run_task P a st (i, AwaitToolCall t, Rejected e)
         = settle t (Threw e) (log_error ''MCP tool call failed'' st)"
  using assms by (simp add: tool_result_content tool_result_other)

theorem tool_call_result_witness:
  "JObj [(''content'', JArr [text_block ''hi'', image_block, text_block ''there''])] \<noteq> JNull
   \<and> JNull \<notin> set [text_block ''hi'', image_block, text_block ''there'']
   \<and> texts_have_string_form [text_block ''hi'', image_block, text_block ''there'']
   \<and> run_task (example_platform []) 0 new_manager
        (3, AwaitToolCall 1,
         Resolved (Some (JObj [(''content'',
            JArr [text_block ''hi'', image_block, text_block ''there''])])))
       = settle 1 (Fulfilled (Some (''hi'' @ newline @ ''there''))) new_manager
   \<and> run_task (example_platform []) 0 new_manager
        (3, AwaitToolCall 1, Resolved (Some (JObj [(''ok'', JBool True)])))
       = settle 1 (Fulfilled (Some (example_stringify (JObj [(''ok'', JBool True)])))) new_manager"
proof -
  have h: "JObj [(''content'', JArr [text_block ''hi'', image_block, text_block ''there''])]
           \<noteq> JNull"
    by simp
  have h': "JObj [(''ok'', JBool True)] \<noteq> JNull"
    by simp
  have n: "JNull \<notin> set [text_block ''hi'', image_block, text_block ''there'']"
    by (simp add: text_block_def image_block_def)
  have f: "texts_have_string_form [text_block ''hi'', image_block, text_block ''there'']"
    by (simp add: texts_have_string_form_def is_text_block_def text_block_def image_block_def)
  show ?thesis
    using h n f
      tool_call_result [OF h, of "example_platform []" 0 new_manager 3 1 "Error None"]
      tool_call_result [OF h', of "example_platform []" 0 new_manager 3 1 "Error None"]
    by (simp add: texts_of_text_blocks_def is_text_block_def text_block_def image_block_def
        example_platform_def)
qed

text \<open>
  Claim C5 as the specification states it (for every successful call) fails: for the
  result \<^verbatim>\<open>{"content":[null,{"type":"text","text":"hi"}]}\<close> the handler throws
  \<^verbatim>\<open>TypeError\<close> where the claim has it return \<^verbatim>\<open>hi\<close>, and for the result \<^verbatim>\<open>null\<close> it
  throws \<^verbatim>\<open>TypeError\<close> where the claim has it return the JSON text \<^verbatim>\<open>null\<close>.
\<close>

theorem null_block_or_null_result_throws:
  "settled (echo_call (JObj [(''content'', JArr [JNull, text_block ''hi''])]))
     = [(0, Fulfilled None), (1, Threw TypeError)]
   \<and> settled (echo_call JNull) = [(0, Fulfilled None), (1, Threw TypeError)]
   \<and> json_stringify (echo_platform JNull) JNull = ''null''"
  by code_simp

text \<open>
  A text without string form, on an example: for the result
  \<^verbatim>\<open>{"content":[{"type":"text","text":{"toString":0}}]}\<close> the \<^verbatim>\<open>join\<close> of line 346
  throws, and so does the handler.
\<close>

lemma text_without_string_form_throws:
  "settled (echo_call (JObj [(''content'',
      JArr [JObj [(''type'', JStr ''text''), (''text'', JObj [(''toString'', JNum 0)])]])]))
     = [(0, Fulfilled None), (1, Threw TypeError)]"
  by code_simp

text \<open>
  Claim C10, as the code has it. When \<^verbatim>\<open>tools/call\<close> succeeds with a result whose
  \<^verbatim>\<open>content\<close> is an array without \<^verbatim>\<open>null\<close> elements and without a block of type
  \<^verbatim>\<open>"text"\<close> (the empty array among them), the handler returns the empty string.
\<close>

theorem no_text_block_gives_empty_string:
  assumes "property result ''content'' = Some (JArr blocks)"
    and "JNull \<notin> set blocks"
    and "\<forall>b \<in> set blocks. property b ''type'' \<noteq> Some (JStr ''text'')"
  shows "run_task P a st (i, AwaitToolCall t, Resolved (Some result))
         = settle t (Fulfilled (Some [])) st"
proof -
  from assms(3) have "filter is_text_block blocks = []"
    by (simp add: filter_empty_conv is_text_block_def)
  then have "texts_of_text_blocks P blocks = []" "texts_have_string_form blocks"
    by (simp_all add: texts_of_text_blocks_def texts_have_string_form_def)
  with tool_result_content[OF assms(1,2), of P] show ?thesis by simp
qed

theorem no_text_block_gives_empty_string_witness:
  "run_task (example_platform []) 0 new_manager
     (3, AwaitToolCall 1, Resolved (Some (JObj [(''content'', JArr [image_block])])))
     = settle 1 (Fulfilled (Some [])) new_manager
   \<and> run_task (example_platform []) 0 new_manager
     (3, AwaitToolCall 1, Resolved (Some (JObj [(''content'', JArr [])])))
     = settle 1 (Fulfilled (Some [])) new_manager"
proof -
  have h1: "property (JObj [(''content'', JArr [image_block])]) ''content''
            = Some (JArr [image_block])"
    by simp
  have h2: "JNull \<notin> set [image_block]"
    by (simp add: image_block_def)
  have h3: "\<forall>b \<in> set [image_block]. property b ''type'' \<noteq> Some (JStr ''text'')"
    by (simp add: image_block_def)
  have e1: "property (JObj [(''content'', JArr [])]) ''content'' = Some (JArr [])"
    by simp
  have e2: "JNull \<notin> set []"
    by simp
  have e3: "\<forall>b \<in> set []. property b ''type'' \<noteq> Some (JStr ''text'')"
    by simp
  show ?thesis
    using no_text_block_gives_empty_string
        [OF h1 h2 h3, of "example_platform []" 0 new_manager 3 1]
      no_text_block_gives_empty_string
        [OF e1 e2 e3, of "example_platform []" 0 new_manager 3 1]
    by simp
qed

text \<open>
  Claim C10 as the specification states it (every array without a text block) fails:
  for the result \<^verbatim>\<open>{"content":[null]}\<close> the handler throws \<^verbatim>\<open>TypeError\<close>.
\<close>

theorem null_block_throws:
  "settled (echo_call (JObj [(''content'', JArr [JNull])]))
     = [(0, Fulfilled None), (1, Threw TypeError)]"
  by code_simp

text \<open>
  The scenario of the specification: the \<^verbatim>\<open>echo\<close> tool called with \<^verbatim>\<open>{"text":"hi"}\<close>
  and answered by one text block resolves to \<^verbatim>\<open>hi\<close>.
\<close>

lemma echo_scenario:
  "settled (echo_call (JObj [(''content'', JArr [text_block ''hi''])]))
     = [(0, Fulfilled None), (1, Fulfilled (Some ''hi''))]"
  by code_simp

end
